theory Spec2Isabelle
  imports Complex_Main "HOL-Library.Word"
begin

unbundle bit_operations_syntax

section \<open>Partitions\<close>

text \<open>
  A single-precision float is kept as its IEEE-754 binary32 bit pattern.  A partition
  (\<^verbatim>\<open>union partition { float data[4]; __m128 reg; }\<close>) is four such lanes, written from the
  least significant lane to the most significant one.
\<close>

type_synonym lane = "32 word"

type_synonym partition = "lane \<times> lane \<times> lane \<times> lane"

text \<open>The float literals of the source: \<^verbatim>\<open>0.f\<close>, \<^verbatim>\<open>1.f\<close>, \<^verbatim>\<open>-1.f\<close> and \<^verbatim>\<open>-0.0\<close>.\<close>

definition zero_f :: lane where
  "zero_f = 0x00000000"

definition one_f :: lane where
  "one_f = 0x3F800000"

definition neg_one_f :: lane where
  "neg_one_f = 0xBF800000"

definition neg_zero_f :: lane where
  "neg_zero_f = 0x80000000"

text \<open>Unary minus on a float flips the sign bit and nothing else.\<close>

definition fneg :: "lane \<Rightarrow> lane" where
  "fneg x = x XOR 0x80000000"

text \<open>\<^verbatim>\<open>data[k]\<close> of a partition; the array has four elements.\<close>

fun data :: "partition \<Rightarrow> nat \<Rightarrow> lane" where
  "data (a, b, c, d) k = (if k = 0 then a else if k = 1 then b else if k = 2 then c else d)"

definition lanes :: "partition \<Rightarrow> lane list" where
  "lanes r = [data r 0, data r 1, data r 2, data r 3]"

text \<open>
  The arithmetic of the SSE unit on one lane.  The intrinsics are not part of the
  repository, so the three lane operations are parameters of everything that uses them.
\<close>

record sse =
  fadd :: "lane \<Rightarrow> lane \<Rightarrow> lane"
  fsub :: "lane \<Rightarrow> lane \<Rightarrow> lane"
  fmul :: "lane \<Rightarrow> lane \<Rightarrow> lane"

text \<open>\<^verbatim>\<open>_mm_set_ps(e3, e2, e1, e0)\<close> takes the most significant lane first.\<close>

definition mm_set_ps :: "lane \<Rightarrow> lane \<Rightarrow> lane \<Rightarrow> lane \<Rightarrow> partition" where
  "mm_set_ps e3 e2 e1 e0 = (e0, e1, e2, e3)"

definition mm_set1_ps :: "lane \<Rightarrow> partition" where
  "mm_set1_ps a = (a, a, a, a)"

fun lanewise :: "(lane \<Rightarrow> lane \<Rightarrow> lane) \<Rightarrow> partition \<Rightarrow> partition \<Rightarrow> partition" where
  "lanewise f (a0, a1, a2, a3) (b0, b1, b2, b3) = (f a0 b0, f a1 b1, f a2 b2, f a3 b3)"

definition mm_add_ps :: "sse \<Rightarrow> partition \<Rightarrow> partition \<Rightarrow> partition" where
  "mm_add_ps u x y = lanewise (fadd u) x y"

definition mm_sub_ps :: "sse \<Rightarrow> partition \<Rightarrow> partition \<Rightarrow> partition" where
  "mm_sub_ps u x y = lanewise (fsub u) x y"

definition mm_mul_ps :: "sse \<Rightarrow> partition \<Rightarrow> partition \<Rightarrow> partition" where
  "mm_mul_ps u x y = lanewise (fmul u) x y"

definition mm_xor_ps :: "partition \<Rightarrow> partition \<Rightarrow> partition" where
  "mm_xor_ps x y = lanewise (XOR) x y"

section \<open>Masked entities\<close>

text \<open>
  \<^verbatim>\<open>template <uint8_t PMask> struct entity\<close>: the mask is a template argument, the storage
  is \<^verbatim>\<open>partition parts[partition_count]\<close>.  The model carries the mask as a field.
\<close>

record entity =
  partition_mask :: "8 word"
  parts :: "partition list"

definition partition_count :: "8 word \<Rightarrow> nat" where
  "partition_count PMask =
     unat ((PMask AND 1) + ((drop_bit 1 PMask) AND 1) + ((drop_bit 2 PMask) AND 1)
           + ((drop_bit 3 PMask) AND 1))"

definition partition_offsets :: "8 word \<Rightarrow> nat list" where
  "partition_offsets PMask =
     [0,
      unat (PMask AND 1),
      unat ((PMask AND 1) + ((drop_bit 1 PMask) AND 1)),
      unat ((PMask AND 1) + ((drop_bit 1 PMask) AND 1) + ((drop_bit 2 PMask) AND 1))]"

text \<open>An object of type \<^verbatim>\<open>entity<PMask>\<close> has exactly \<^verbatim>\<open>partition_count\<close> partitions.\<close>

definition wf_entity :: "entity \<Rightarrow> bool" where
  "wf_entity e \<longleftrightarrow> length (parts e) = partition_count (partition_mask e)"

text \<open>The accessors \<^verbatim>\<open>p0()\<close> .. \<^verbatim>\<open>p3()\<close> and their mutable counterparts.\<close>

definition p0 :: "entity \<Rightarrow> partition" where
  "p0 e = parts e ! (partition_offsets (partition_mask e) ! 0)"

definition p1 :: "entity \<Rightarrow> partition" where
  "p1 e = parts e ! (partition_offsets (partition_mask e) ! 1)"

definition p2 :: "entity \<Rightarrow> partition" where
  "p2 e = parts e ! (partition_offsets (partition_mask e) ! 2)"

definition p3 :: "entity \<Rightarrow> partition" where
  "p3 e = parts e ! (partition_offsets (partition_mask e) ! 3)"

definition set_p0 :: "entity \<Rightarrow> partition \<Rightarrow> entity" where
  "set_p0 e r = e\<lparr>parts := (parts e)[partition_offsets (partition_mask e) ! 0 := r]\<rparr>"

definition set_p1 :: "entity \<Rightarrow> partition \<Rightarrow> entity" where
  "set_p1 e r = e\<lparr>parts := (parts e)[partition_offsets (partition_mask e) ! 1 := r]\<rparr>"

definition set_p2 :: "entity \<Rightarrow> partition \<Rightarrow> entity" where
  "set_p2 e r = e\<lparr>parts := (parts e)[partition_offsets (partition_mask e) ! 2 := r]\<rparr>"

definition set_p3 :: "entity \<Rightarrow> partition \<Rightarrow> entity" where
  "set_p3 e r = e\<lparr>parts := (parts e)[partition_offsets (partition_mask e) ! 3 := r]\<rparr>"

subsection \<open>Coefficient accessors\<close>

definition scalar :: "entity \<Rightarrow> lane" where
  "scalar e = (if (partition_mask e AND 0b10) > 0
     then data (parts e ! (partition_offsets (partition_mask e) ! 1)) 0 else zero_f)"

definition e0 :: "entity \<Rightarrow> lane" where
  "e0 e = (if (partition_mask e AND 1) > 0
     then data (parts e ! (partition_offsets (partition_mask e) ! 0)) 3 else zero_f)"

definition e1 :: "entity \<Rightarrow> lane" where
  "e1 e = (if (partition_mask e AND 1) > 0
     then data (parts e ! (partition_offsets (partition_mask e) ! 0)) 2 else zero_f)"

definition e2 :: "entity \<Rightarrow> lane" where
  "e2 e = (if (partition_mask e AND 1) > 0
     then data (parts e ! (partition_offsets (partition_mask e) ! 0)) 1 else zero_f)"

definition e3 :: "entity \<Rightarrow> lane" where
  "e3 e = (if (partition_mask e AND 1) > 0
     then data (parts e ! (partition_offsets (partition_mask e) ! 0)) 0 else zero_f)"

definition e12 :: "entity \<Rightarrow> lane" where
  "e12 e = (if (partition_mask e AND 0b10) > 0
     then data (parts e ! (partition_offsets (partition_mask e) ! 1)) 1 else zero_f)"

definition e21 :: "entity \<Rightarrow> lane" where
  "e21 e = (if (partition_mask e AND 0b10) > 0
     then fneg (data (parts e ! (partition_offsets (partition_mask e) ! 1)) 1) else zero_f)"

definition e31 :: "entity \<Rightarrow> lane" where
  "e31 e = (if (partition_mask e AND 0b10) > 0
     then data (parts e ! (partition_offsets (partition_mask e) ! 1)) 2 else zero_f)"

definition e13 :: "entity \<Rightarrow> lane" where
  "e13 e = (if (partition_mask e AND 0b10) > 0
     then fneg (data (parts e ! (partition_offsets (partition_mask e) ! 1)) 2) else zero_f)"

definition e23 :: "entity \<Rightarrow> lane" where
  "e23 e = (if (partition_mask e AND 0b10) > 0
     then data (parts e ! (partition_offsets (partition_mask e) ! 1)) 3 else zero_f)"

definition e32 :: "entity \<Rightarrow> lane" where
  "e32 e = (if (partition_mask e AND 0b10) > 0
     then fneg (data (parts e ! (partition_offsets (partition_mask e) ! 1)) 3) else zero_f)"

definition e01 :: "entity \<Rightarrow> lane" where
  "e01 e = (if (partition_mask e AND 0b100) > 0
     then data (parts e ! (partition_offsets (partition_mask e) ! 2)) 1 else zero_f)"

definition e10 :: "entity \<Rightarrow> lane" where
  "e10 e = (if (partition_mask e AND 0b100) > 0
     then fneg (data (parts e ! (partition_offsets (partition_mask e) ! 2)) 1) else zero_f)"

definition e02 :: "entity \<Rightarrow> lane" where
  "e02 e = (if (partition_mask e AND 0b100) > 0
     then data (parts e ! (partition_offsets (partition_mask e) ! 2)) 2 else zero_f)"

definition e20 :: "entity \<Rightarrow> lane" where
  "e20 e = (if (partition_mask e AND 0b100) > 0
     then fneg (data (parts e ! (partition_offsets (partition_mask e) ! 2)) 2) else zero_f)"

definition e03 :: "entity \<Rightarrow> lane" where
  "e03 e = (if (partition_mask e AND 0b100) > 0
     then data (parts e ! (partition_offsets (partition_mask e) ! 2)) 3 else zero_f)"

definition e30 :: "entity \<Rightarrow> lane" where
  "e30 e = (if (partition_mask e AND 0b100) > 0
     then fneg (data (parts e ! (partition_offsets (partition_mask e) ! 2)) 3) else zero_f)"

definition e123 :: "entity \<Rightarrow> lane" where
  "e123 e = (if (partition_mask e AND 0b1000) > 0
     then data (parts e ! (partition_offsets (partition_mask e) ! 3)) 0 else zero_f)"

definition e021 :: "entity \<Rightarrow> lane" where
  "e021 e = (if (partition_mask e AND 0b1000) > 0
     then data (parts e ! (partition_offsets (partition_mask e) ! 3)) 1 else zero_f)"

definition e013 :: "entity \<Rightarrow> lane" where
  "e013 e = (if (partition_mask e AND 0b1000) > 0
     then data (parts e ! (partition_offsets (partition_mask e) ! 3)) 2 else zero_f)"

definition e032 :: "entity \<Rightarrow> lane" where
  "e032 e = (if (partition_mask e AND 0b1000) > 0
     then data (parts e ! (partition_offsets (partition_mask e) ! 3)) 3 else zero_f)"

definition e0123 :: "entity \<Rightarrow> lane" where
  "e0123 e = (if (partition_mask e AND 0b100) > 0
     then data (parts e ! (partition_offsets (partition_mask e) ! 2)) 0 else zero_f)"


section \<open>Construction and copying\<close>

text \<open>
  \<^verbatim>\<open>entity() {}\<close> leaves the storage indeterminate.  The content found there is the
  argument \<open>junk\<close> (one partition per index), so that nothing proved below can depend on it.
\<close>

definition new_entity :: "(nat \<Rightarrow> partition) \<Rightarrow> 8 word \<Rightarrow> entity" where
  "new_entity junk PMask =
     \<lparr>partition_mask = PMask, parts = map junk [0..<partition_count PMask]\<rparr>"

text \<open>The copy constructor copies \<^verbatim>\<open>partition_count\<close> partitions, one by one.\<close>

definition entity_copy :: "entity \<Rightarrow> entity" where
  "entity_copy other =
     \<lparr>partition_mask = partition_mask other,
      parts = map (\<lambda>i. parts other ! i) [0..<partition_count (partition_mask other)]\<rparr>"

section \<open>Reversion\<close>

text \<open>\<^verbatim>\<open>entity operator~() const\<close>.\<close>

definition operator_tilde :: "sse \<Rightarrow> entity \<Rightarrow> entity" where
  "operator_tilde u this =
     (let PMask = partition_mask this;
          out = entity_copy this;
          out = (if (PMask AND 0b10) > 0
                 then set_p1 out (mm_mul_ps u (p1 this) (mm_set_ps neg_one_f neg_one_f neg_one_f one_f))
                 else out);
          out = (if (PMask AND 0b100) > 0
                 then set_p2 out (mm_mul_ps u (p2 this) (mm_set_ps neg_one_f neg_one_f neg_one_f one_f))
                 else out);
          out = (if (PMask AND 0b1000) > 0
                 then set_p3 out (mm_mul_ps u (p3 this) (mm_set1_ps neg_one_f))
                 else out)
      in out)"

section \<open>Addition and subtraction\<close>

text \<open>
  The body of the loop of \<^verbatim>\<open>add_sub(...) const&\<close> for one value of \<^verbatim>\<open>m\<close>.  The state is the
  storage of \<^verbatim>\<open>out\<close> and the three running offsets.
\<close>

type_synonym add_sub_state = "partition list \<times> nat \<times> nat \<times> nat"

fun add_sub_step :: "sse \<Rightarrow> bool \<Rightarrow> entity \<Rightarrow> entity \<Rightarrow> 8 word \<Rightarrow> add_sub_state \<Rightarrow> add_sub_state" where
  "add_sub_step u Add this other m (out_parts, offset, lhs_offset, rhs_offset) =
     (if partition_mask this AND m \<noteq> 0 then
        (if partition_mask other AND m \<noteq> 0 then
           (if Add then
              (out_parts[offset := mm_add_ps u (parts this ! lhs_offset) (parts other ! rhs_offset)],
               offset + 1, lhs_offset + 1, rhs_offset + 1)
            else
              (out_parts[offset := mm_sub_ps u (parts this ! lhs_offset) (parts other ! rhs_offset)],
               offset + 1, lhs_offset + 1, rhs_offset + 1))
         else
           (out_parts[offset := parts this ! lhs_offset], offset + 1, lhs_offset + 1, rhs_offset))
      else
        (if partition_mask other AND m \<noteq> 0 then
           (if Add then
              (out_parts[offset := parts other ! rhs_offset], offset + 1, lhs_offset, rhs_offset + 1)
            else
              (out_parts[offset := mm_xor_ps (parts other ! rhs_offset) (mm_set1_ps neg_zero_f)],
               offset + 1, lhs_offset, rhs_offset + 1))
         else (out_parts, offset, lhs_offset, rhs_offset)))"

text \<open>
  \<^verbatim>\<open>for (uint8_t m = 1; m != 0b10000; m <<= 1)\<close> runs the body for \<open>m = 1, 2, 4, 8\<close>, in
  this order.
\<close>

definition slot_bits :: "8 word list" where
  "slot_bits = [1, 2, 4, 8]"

definition add_sub :: "sse \<Rightarrow> (nat \<Rightarrow> partition) \<Rightarrow> bool \<Rightarrow> entity \<Rightarrow> entity \<Rightarrow> entity" where
  "add_sub u junk Add this other =
     (let pmask = partition_mask this OR partition_mask other;
          out = new_entity junk pmask;
          (out_parts, offset, lhs_offset, rhs_offset) =
             fold (add_sub_step u Add this other) slot_bits (parts out, 0, 0, 0)
      in out\<lparr>parts := out_parts\<rparr>)"

text \<open>The overload \<^verbatim>\<open>add_sub(...) &&\<close>, which works on the storage of \<^verbatim>\<open>*this\<close>.\<close>

fun add_sub_rvalue_step ::
  "sse \<Rightarrow> bool \<Rightarrow> entity \<Rightarrow> 8 word \<Rightarrow> partition list \<times> nat \<times> nat \<Rightarrow> partition list \<times> nat \<times> nat" where
  "add_sub_rvalue_step u Add other m (this_parts, offset, rhs_offset) =
     (if partition_mask other AND m \<noteq> 0 then
        (if Add then
           (this_parts[offset := mm_add_ps u (this_parts ! offset) (parts other ! rhs_offset)],
            offset + 1, rhs_offset + 1)
         else
           (this_parts[offset := mm_sub_ps u (this_parts ! offset) (parts other ! rhs_offset)],
            offset + 1, rhs_offset + 1))
      else (this_parts, offset, rhs_offset))"

definition add_sub_rvalue :: "sse \<Rightarrow> (nat \<Rightarrow> partition) \<Rightarrow> bool \<Rightarrow> entity \<Rightarrow> entity \<Rightarrow> entity" where
  "add_sub_rvalue u junk Add this other =
     (let pmask = partition_mask this OR partition_mask other in
      if pmask = partition_mask this then
        (let (this_parts, offset, rhs_offset) =
               fold (add_sub_rvalue_step u Add other) slot_bits (parts this, 0, 0)
         in entity_copy (this\<lparr>parts := this_parts\<rparr>))
      else
        (let out = new_entity junk pmask;
             out = add_sub u junk Add this other
         in out))"

text \<open>
  The four operators.  Inside a member function \<^verbatim>\<open>*this\<close> is an lvalue, so each of them
  calls the \<^verbatim>\<open>const&\<close> overload.
\<close>

definition operator_plus :: "sse \<Rightarrow> (nat \<Rightarrow> partition) \<Rightarrow> entity \<Rightarrow> entity \<Rightarrow> entity" where
  "operator_plus u junk this other = add_sub u junk True this other"

definition operator_minus :: "sse \<Rightarrow> (nat \<Rightarrow> partition) \<Rightarrow> entity \<Rightarrow> entity \<Rightarrow> entity" where
  "operator_minus u junk this other = add_sub u junk False this other"


section \<open>Geometric product\<close>

text \<open>
  The partition-pair kernels and their result structs are declared in
  \<^verbatim>\<open>detail/prstar_gp.hpp\<close>, which is not part of the sources at hand.  The product is
  therefore defined for any fifteen kernels of the types its calls require: a kernel
  returns \<^verbatim>\<open>p1p2\<close> (members \<^verbatim>\<open>p1\<close>, \<^verbatim>\<open>p2\<close>), \<^verbatim>\<open>p0p3\<close> (members \<^verbatim>\<open>p0\<close>, \<^verbatim>\<open>p3\<close>) or a
  single register.
\<close>

record p1p2 =
  p1p2_p1 :: partition
  p1p2_p2 :: partition

record p0p3 =
  p0p3_p0 :: partition
  p0p3_p3 :: partition

record kernels =
  gp00 :: "partition \<Rightarrow> partition \<Rightarrow> p1p2"
  gp01 :: "partition \<Rightarrow> partition \<Rightarrow> p0p3"
  gp02 :: "partition \<Rightarrow> partition \<Rightarrow> p0p3"
  gp03 :: "partition \<Rightarrow> partition \<Rightarrow> p1p2"
  gp10 :: "partition \<Rightarrow> partition \<Rightarrow> p0p3"
  gp11 :: "partition \<Rightarrow> partition \<Rightarrow> partition"
  gp12 :: "partition \<Rightarrow> partition \<Rightarrow> partition"
  gp13 :: "partition \<Rightarrow> partition \<Rightarrow> p0p3"
  gp20 :: "partition \<Rightarrow> partition \<Rightarrow> p0p3"
  gp21 :: "partition \<Rightarrow> partition \<Rightarrow> partition"
  gp23 :: "partition \<Rightarrow> partition \<Rightarrow> p0p3"
  gp30 :: "partition \<Rightarrow> partition \<Rightarrow> p1p2"
  gp31 :: "partition \<Rightarrow> partition \<Rightarrow> p0p3"
  gp32 :: "partition \<Rightarrow> partition \<Rightarrow> p0p3"
  gp33 :: "partition \<Rightarrow> partition \<Rightarrow> p1p2"

text \<open>The four local accumulators \<^verbatim>\<open>p0_\<close>, \<^verbatim>\<open>p1_\<close>, \<^verbatim>\<open>p2_\<close>, \<^verbatim>\<open>p3_\<close>.\<close>

record accumulators =
  acc_p0 :: partition
  acc_p1 :: partition
  acc_p2 :: partition
  acc_p3 :: partition

definition add_p0p3 :: "sse \<Rightarrow> accumulators \<Rightarrow> p0p3 \<Rightarrow> accumulators" where
  "add_p0p3 u s r =
     s\<lparr>acc_p0 := mm_add_ps u (acc_p0 s) (p0p3_p0 r), acc_p3 := mm_add_ps u (acc_p3 s) (p0p3_p3 r)\<rparr>"

definition add_p1p2 :: "sse \<Rightarrow> accumulators \<Rightarrow> p1p2 \<Rightarrow> accumulators" where
  "add_p1p2 u s r =
     s\<lparr>acc_p1 := mm_add_ps u (acc_p1 s) (p1p2_p1 r), acc_p2 := mm_add_ps u (acc_p2 s) (p1p2_p2 r)\<rparr>"

text \<open>The block guarded by \<^verbatim>\<open>(PMask & 1) > 0\<close>; its first two kernels assign, the others add.\<close>

definition gp_block0 :: "sse \<Rightarrow> kernels \<Rightarrow> entity \<Rightarrow> entity \<Rightarrow> accumulators \<Rightarrow> accumulators" where
  "gp_block0 u k this rhs s =
     (let PMask2 = partition_mask rhs;
          s = (if (PMask2 AND 1) > 0
               then (let r = gp00 k (p0 this) (p0 rhs) in s\<lparr>acc_p1 := p1p2_p1 r, acc_p2 := p1p2_p2 r\<rparr>)
               else s);
          s = (if (PMask2 AND 0b10) > 0
               then (let r = gp01 k (p0 this) (p1 rhs) in s\<lparr>acc_p0 := p0p3_p0 r, acc_p3 := p0p3_p3 r\<rparr>)
               else s);
          s = (if (PMask2 AND 0b100) > 0 then add_p0p3 u s (gp02 k (p0 this) (p2 rhs)) else s);
          s = (if (PMask2 AND 0b1000) > 0 then add_p1p2 u s (gp03 k (p0 this) (p3 rhs)) else s)
      in s)"

text \<open>The block guarded by \<^verbatim>\<open>(PMask & 0b10) > 0\<close>.\<close>

definition gp_block1 :: "sse \<Rightarrow> kernels \<Rightarrow> entity \<Rightarrow> entity \<Rightarrow> accumulators \<Rightarrow> accumulators" where
  "gp_block1 u k this rhs s =
     (let PMask2 = partition_mask rhs;
          s = (if (PMask2 AND 1) > 0 then add_p0p3 u s (gp10 k (p1 this) (p0 rhs)) else s);
          s = (if (PMask2 AND 0b10) > 0
               then s\<lparr>acc_p1 := mm_add_ps u (acc_p1 s) (gp11 k (p1 this) (p1 rhs))\<rparr> else s);
          s = (if (PMask2 AND 0b100) > 0
               then s\<lparr>acc_p2 := mm_add_ps u (acc_p2 s) (gp12 k (p1 this) (p2 rhs))\<rparr> else s);
          s = (if (PMask2 AND 0b1000) > 0 then add_p0p3 u s (gp13 k (p1 this) (p3 rhs)) else s)
      in s)"

text \<open>The block guarded by \<^verbatim>\<open>(PMask & 0b100) > 0\<close>; it has no branch for \<^verbatim>\<open>PMask2 & 0b100\<close>.\<close>

definition gp_block2 :: "sse \<Rightarrow> kernels \<Rightarrow> entity \<Rightarrow> entity \<Rightarrow> accumulators \<Rightarrow> accumulators" where
  "gp_block2 u k this rhs s =
     (let PMask2 = partition_mask rhs;
          s = (if (PMask2 AND 1) > 0 then add_p0p3 u s (gp20 k (p2 this) (p0 rhs)) else s);
          s = (if (PMask2 AND 0b10) > 0
               then s\<lparr>acc_p2 := mm_add_ps u (acc_p2 s) (gp21 k (p2 this) (p1 rhs))\<rparr> else s);
          s = (if (PMask2 AND 0b1000) > 0 then add_p0p3 u s (gp23 k (p2 this) (p3 rhs)) else s)
      in s)"

text \<open>The block guarded by \<^verbatim>\<open>(PMask & 0b1000) > 0\<close>.\<close>

definition gp_block3 :: "sse \<Rightarrow> kernels \<Rightarrow> entity \<Rightarrow> entity \<Rightarrow> accumulators \<Rightarrow> accumulators" where
  "gp_block3 u k this rhs s =
     (let PMask2 = partition_mask rhs;
          s = (if (PMask2 AND 1) > 0 then add_p1p2 u s (gp30 k (p3 this) (p0 rhs)) else s);
          s = (if (PMask2 AND 0b10) > 0 then add_p0p3 u s (gp31 k (p3 this) (p1 rhs)) else s);
          s = (if (PMask2 AND 0b100) > 0 then add_p0p3 u s (gp32 k (p3 this) (p2 rhs)) else s);
          s = (if (PMask2 AND 0b1000) > 0 then add_p1p2 u s (gp33 k (p3 this) (p3 rhs)) else s)
      in s)"

definition gp_accumulate :: "sse \<Rightarrow> kernels \<Rightarrow> entity \<Rightarrow> entity \<Rightarrow> accumulators" where
  "gp_accumulate u k this rhs =
     (let PMask = partition_mask this;
          s = \<lparr>acc_p0 = mm_set1_ps zero_f, acc_p1 = mm_set1_ps zero_f,
               acc_p2 = mm_set1_ps zero_f, acc_p3 = mm_set1_ps zero_f\<rparr>;
          s = (if (PMask AND 1) > 0 then gp_block0 u k this rhs s else s);
          s = (if (PMask AND 0b10) > 0 then gp_block1 u k this rhs s else s);
          s = (if (PMask AND 0b100) > 0 then gp_block2 u k this rhs s else s);
          s = (if (PMask AND 0b1000) > 0 then gp_block3 u k this rhs s else s)
      in s)"

text \<open>
  The kernels called for a pair of masks, in the order of the calls: \<open>(i, j)\<close> stands for
  \<^verbatim>\<open>gpij(pi(), rhs.pj())\<close>.  The guards are those of the four blocks above.
\<close>

definition kernel_calls :: "8 word \<Rightarrow> 8 word \<Rightarrow> (nat \<times> nat) list" where
  "kernel_calls PMask PMask2 =
     (if (PMask AND 1) > 0 then
        (if (PMask2 AND 1) > 0 then [(0, 0)] else []) @
        (if (PMask2 AND 0b10) > 0 then [(0, 1)] else []) @
        (if (PMask2 AND 0b100) > 0 then [(0, 2)] else []) @
        (if (PMask2 AND 0b1000) > 0 then [(0, 3)] else [])
      else []) @
     (if (PMask AND 0b10) > 0 then
        (if (PMask2 AND 1) > 0 then [(1, 0)] else []) @
        (if (PMask2 AND 0b10) > 0 then [(1, 1)] else []) @
        (if (PMask2 AND 0b100) > 0 then [(1, 2)] else []) @
        (if (PMask2 AND 0b1000) > 0 then [(1, 3)] else [])
      else []) @
     (if (PMask AND 0b100) > 0 then
        (if (PMask2 AND 1) > 0 then [(2, 0)] else []) @
        (if (PMask2 AND 0b10) > 0 then [(2, 1)] else []) @
        (if (PMask2 AND 0b1000) > 0 then [(2, 3)] else [])
      else []) @
     (if (PMask AND 0b1000) > 0 then
        (if (PMask2 AND 1) > 0 then [(3, 0)] else []) @
        (if (PMask2 AND 0b10) > 0 then [(3, 1)] else []) @
        (if (PMask2 AND 0b100) > 0 then [(3, 2)] else []) @
        (if (PMask2 AND 0b1000) > 0 then [(3, 3)] else [])
      else [])"

text \<open>
  The mask of the result.  The operands of \<^verbatim>\<open>&\<close> are promoted to \<^verbatim>\<open>int\<close>; this matters for
  the literal \<^verbatim>\<open>1001\<close>, which the source writes in decimal and which does not fit in eight
  bits.
\<close>

definition promote :: "8 word \<Rightarrow> 32 word" where
  "promote m = ucast m"

definition p0_set :: "8 word \<Rightarrow> 8 word \<Rightarrow> bool" where
  "p0_set PMask PMask2 \<longleftrightarrow>
     (promote PMask AND 1 \<noteq> 0 \<and> promote PMask2 AND 0b110 \<noteq> 0)
     \<or> (promote PMask AND 0b110 \<noteq> 0 \<and> promote PMask2 AND 1 \<noteq> 0)
     \<or> (promote PMask AND 0b10 \<noteq> 0 \<and> promote PMask2 AND 0b1000 \<noteq> 0)
     \<or> (promote PMask AND 0b1000 \<noteq> 0 \<and> promote PMask2 AND 0b10 \<noteq> 0)"

definition p1_set :: "8 word \<Rightarrow> 8 word \<Rightarrow> bool" where
  "p1_set PMask PMask2 \<longleftrightarrow>
     (promote PMask AND 1001 \<noteq> 0 \<and> promote PMask2 AND 0b1001 \<noteq> 0)
     \<or> (promote PMask AND 0b10 \<noteq> 0 \<and> promote PMask2 AND 0b10 \<noteq> 0)"

definition p2_set :: "8 word \<Rightarrow> 8 word \<Rightarrow> bool" where
  "p2_set PMask PMask2 \<longleftrightarrow>
     (promote PMask AND 1001 \<noteq> 0 \<and> promote PMask2 AND 0b1001 \<noteq> 0)
     \<or> (promote PMask AND 0b10 \<noteq> 0 \<and> promote PMask2 AND 0b100 \<noteq> 0)
     \<or> (promote PMask AND 0b100 \<noteq> 0 \<and> promote PMask2 AND 0b10 \<noteq> 0)"

definition p3_set :: "8 word \<Rightarrow> 8 word \<Rightarrow> bool" where
  "p3_set PMask PMask2 \<longleftrightarrow>
     (promote PMask AND 0b110 \<noteq> 0 \<and> promote PMask2 AND 0b1001 \<noteq> 0)
     \<or> (promote PMask AND 0b1001 \<noteq> 0 \<and> promote PMask2 AND 0b110 \<noteq> 0)"

definition out_mask :: "8 word \<Rightarrow> 8 word \<Rightarrow> 8 word" where
  "out_mask PMask PMask2 =
     ucast (push_bit 3 (of_bool (p3_set PMask PMask2) :: 32 word)
            OR push_bit 2 (of_bool (p2_set PMask PMask2))
            OR push_bit 1 (of_bool (p1_set PMask PMask2))
            OR of_bool (p0_set PMask PMask2))"

text \<open>\<^verbatim>\<open>operator*\<close>.\<close>

definition operator_times ::
  "sse \<Rightarrow> kernels \<Rightarrow> (nat \<Rightarrow> partition) \<Rightarrow> entity \<Rightarrow> entity \<Rightarrow> entity" where
  "operator_times u k junk this rhs =
     (let PMask = partition_mask this;
          PMask2 = partition_mask rhs;
          s = gp_accumulate u k this rhs;
          out = new_entity junk (out_mask PMask PMask2);
          out = (if p0_set PMask PMask2 then set_p0 out (acc_p0 s) else out);
          out = (if p1_set PMask PMask2 then set_p1 out (acc_p1 s) else out);
          out = (if p2_set PMask PMask2 then set_p2 out (acc_p2 s) else out);
          out = (if p3_set PMask PMask2 then set_p3 out (acc_p3 s) else out)
      in out)"


section \<open>Directions\<close>

text \<open>
  \<^verbatim>\<open>struct direction final : public entity<0b1000>\<close>.  The constructor from three
  coordinates writes \<^verbatim>\<open>parts[0].reg = _mm_set_ps(x, y, z, 0.f)\<close> into a default-constructed
  entity.
\<close>

definition direction :: "(nat \<Rightarrow> partition) \<Rightarrow> lane \<Rightarrow> lane \<Rightarrow> lane \<Rightarrow> entity" where
  "direction junk x y z =
     (let this = new_entity junk 0b1000
      in this\<lparr>parts := (parts this)[0 := mm_set_ps x y z zero_f]\<rparr>)"

text \<open>
  \<^verbatim>\<open>operator[](size_t i)\<close> returns \<^verbatim>\<open>parts[0].data[3 - i]\<close>.  The index is unsigned, so
  \<^verbatim>\<open>3 - i\<close> wraps around for \<open>i > 3\<close> and the read leaves the array: the model answers
  \<open>None\<close> there.
\<close>

definition direction_subscript :: "entity \<Rightarrow> 64 word \<Rightarrow> lane option" where
  "direction_subscript this i =
     (let k = 3 - i in if k < 4 then Some (data (parts this ! 0) (unat k)) else None)"

definition direction_x :: "entity \<Rightarrow> lane" where
  "direction_x this = data (parts this ! 0) 3"

definition direction_y :: "entity \<Rightarrow> lane" where
  "direction_y this = data (parts this ! 0) 2"

definition direction_z :: "entity \<Rightarrow> lane" where
  "direction_z this = data (parts this ! 0) 1"

subsection \<open>Conversion from an entity\<close>

text \<open>
  The assertion compares a \<^verbatim>\<open>float\<close> with the \<^verbatim>\<open>double\<close> literals \<^verbatim>\<open>1e-7\<close> and \<^verbatim>\<open>-1e-7\<close>.
  The conversion of a float to a double is exact, so the comparison is one of the values
  the bit patterns stand for.  \<open>float_value\<close> is the IEEE-754 reading of a binary32
  pattern: a sign bit, eight exponent bits, twenty-three fraction bits.
\<close>

datatype fvalue = NaN | Infinity bool | Finite real

definition float_value :: "lane \<Rightarrow> fvalue" where
  "float_value x =
     (let negative = bit x 31;
          e = unat (take_bit 8 (drop_bit 23 x));
          m = unat (take_bit 23 x)
      in if e = 255 then (if m = 0 then Infinity negative else NaN)
         else (let magnitude = (if e = 0 then real m / 2 ^ 149
                                else real (2 ^ 23 + m) * 2 ^ e / 2 ^ 150)
               in Finite (if negative then - magnitude else magnitude)))"

text \<open>The comparisons \<^verbatim>\<open><\<close> and \<^verbatim>\<open>>\<close> with a finite constant; both are false on a NaN.\<close>

definition float_less :: "fvalue \<Rightarrow> real \<Rightarrow> bool" where
  "float_less v c = (case v of NaN \<Rightarrow> False | Infinity negative \<Rightarrow> negative | Finite r \<Rightarrow> r < c)"

definition float_greater :: "fvalue \<Rightarrow> real \<Rightarrow> bool" where
  "float_greater v c = (case v of NaN \<Rightarrow> False | Infinity negative \<Rightarrow> \<not> negative | Finite r \<Rightarrow> r > c)"

text \<open>The double nearest to \<open>10\<^sup>-\<^sup>7\<close>, which is what the literal \<^verbatim>\<open>1e-7\<close> denotes.\<close>

definition double_1e_7 :: real where
  "double_1e_7 = 944473296573929 / 2 ^ 73"

datatype failure = Assertion_failed

text \<open>
  \<^verbatim>\<open>direction(entity<0b1000> const& e) : entity{e}\<close>.  The assertion is compiled in when
  \<^verbatim>\<open>PRSTAR_VALIDATE\<close> is defined, and \<^verbatim>\<open>assert\<close> itself does nothing under \<^verbatim>\<open>NDEBUG\<close>.
\<close>

definition direction_of_entity :: "bool \<Rightarrow> bool \<Rightarrow> entity \<Rightarrow> failure + entity" where
  "direction_of_entity PRSTAR_VALIDATE NDEBUG e =
     (let this = entity_copy e in
      if PRSTAR_VALIDATE \<and> \<not> NDEBUG then
        (let h = float_value (data (parts this ! 0) 0) in
         if float_less h double_1e_7 \<and> float_greater h (- double_1e_7)
         then Inr this else Inl Assertion_failed)
      else Inr this)"

text \<open>A lane is within \<open>1e-7\<close> of zero when it is a finite number of absolute value below it.\<close>

definition within_1e_7 :: "lane \<Rightarrow> bool" where
  "within_1e_7 x = (case float_value x of Finite r \<Rightarrow> \<bar>r\<bar> < double_1e_7 | _ \<Rightarrow> False)"

section \<open>Vocabulary of the statements\<close>

text \<open>Slot \<open>i\<close> of an entity: \<^verbatim>\<open>parts[partition_offsets[i]]\<close>, which is \<^verbatim>\<open>p0()\<close> .. \<^verbatim>\<open>p3()\<close>.\<close>

definition slot :: "entity \<Rightarrow> nat \<Rightarrow> partition" where
  "slot e i = parts e ! (partition_offsets (partition_mask e) ! i)"

text \<open>The number of slots of a mask below slot \<open>i\<close>.\<close>

primrec below :: "8 word \<Rightarrow> nat \<Rightarrow> nat" where
  "below M 0 = 0"
| "below M (Suc i) = below M i + of_bool (bit M i)"

text \<open>
  What \<^verbatim>\<open>add_sub\<close> is to leave in slot \<open>i\<close> of its result when at least one operand has
  that slot: the lane-wise sum or difference when both have it, the left partition when
  only the left has it, and the right partition, with every sign bit flipped for a
  subtraction, when only the right has it.
\<close>

definition add_sub_slot :: "sse \<Rightarrow> bool \<Rightarrow> entity \<Rightarrow> entity \<Rightarrow> nat \<Rightarrow> partition" where
  "add_sub_slot u Add A B i =
     (if bit (partition_mask A) i then
        (if bit (partition_mask B) i then
           (if Add then mm_add_ps u (slot A i) (slot B i) else mm_sub_ps u (slot A i) (slot B i))
         else slot A i)
      else (if Add then slot B i else mm_xor_ps (slot B i) (mm_set1_ps neg_zero_f)))"

text \<open>
  A lane holds a NaN when its exponent field is all ones and its fraction is not zero.
  Making a NaN quiet sets the top bit of the fraction and leaves the sign alone.
\<close>

definition is_nan :: "lane \<Rightarrow> bool" where
  "is_nan x \<longleftrightarrow> float_value x = NaN"

definition quiet :: "lane \<Rightarrow> lane" where
  "quiet x = x OR 0x00400000"

text \<open>
  What IEEE-754 says of a multiplication by \<^verbatim>\<open>1.f\<close> or \<^verbatim>\<open>-1.f\<close>: on every operand that is
  not a NaN the product is exact, the operand itself or the operand with its sign
  flipped.  Nothing is said here of a NaN operand.
\<close>

definition ieee_sign_mul :: "sse \<Rightarrow> bool" where
  "ieee_sign_mul u \<longleftrightarrow>
     (\<forall>x. \<not> is_nan x \<longrightarrow> fmul u x one_f = x \<and> fmul u x neg_one_f = fneg x)"

text \<open>
  The constant operand of the multiplication in \<^verbatim>\<open>operator~\<close>:
  \<^verbatim>\<open>_mm_set_ps(-1.f, -1.f, -1.f, 1.f)\<close> for slots 1 and 2, \<^verbatim>\<open>_mm_set1_ps(-1.f)\<close> for slot 3.
\<close>

definition sign_pattern :: "nat \<Rightarrow> partition" where
  "sign_pattern i = (if i = 3 then mm_set1_ps neg_one_f
                     else mm_set_ps neg_one_f neg_one_f neg_one_f one_f)"

text \<open>One of the three guarded assignments of \<^verbatim>\<open>operator~\<close>, as an update of the storage.\<close>

definition tilde_update :: "sse \<Rightarrow> entity \<Rightarrow> nat \<Rightarrow> partition list \<Rightarrow> partition list" where
  "tilde_update u A j ps =
     (if bit (partition_mask A) j
      then ps[below (partition_mask A) j := mm_mul_ps u (slot A j) (sign_pattern j)] else ps)"

text \<open>
  An arithmetic unit for the examples.  Its multiplication is that of \<^verbatim>\<open>MULPS\<close> where the
  second operand is \<^verbatim>\<open>1.f\<close> or \<^verbatim>\<open>-1.f\<close>: a NaN in the first operand comes back quiet, with
  its sign, and a number comes back exactly, with its sign flipped for \<^verbatim>\<open>-1.f\<close>.  It knows
  no other operation.
\<close>

definition mulps_sign_unit :: sse where
  "mulps_sign_unit =
     \<lparr>fadd = (\<lambda>x y. zero_f), fsub = (\<lambda>x y. zero_f),
      fmul = (\<lambda>x y. if is_nan x then quiet x
                     else if y = one_f then x else if y = neg_one_f then fneg x else zero_f)\<rparr>"

text \<open>The magnitude of a finite binary32 value with exponent field \<open>e\<close> and fraction \<open>m\<close>.\<close>

definition magnitude :: "nat \<Rightarrow> nat \<Rightarrow> real" where
  "magnitude e m = (if e = 0 then real m / 2 ^ 149 else real (2 ^ 23 + m) * 2 ^ e / 2 ^ 150)"

text \<open>The comparison \<^verbatim>\<open>==\<close> of two floats: false on a NaN, true on the two zeros.\<close>

definition float_eq :: "lane \<Rightarrow> lane \<Rightarrow> bool" where
  "float_eq x y =
     (case (float_value x, float_value y) of
        (Finite a, Finite b) \<Rightarrow> a = b
      | (Infinity s, Infinity t) \<Rightarrow> s = t
      | _ \<Rightarrow> False)"

text \<open>
  Two sets of kernels agree on a call when the kernel of that call is the same function
  in both.
\<close>

definition kernels_agree :: "kernels \<Rightarrow> kernels \<Rightarrow> nat \<times> nat \<Rightarrow> bool" where
  "kernels_agree k k' c \<longleftrightarrow>
     (c = (0, 0) \<longrightarrow> gp00 k = gp00 k') \<and> (c = (0, 1) \<longrightarrow> gp01 k = gp01 k') \<and>
     (c = (0, 2) \<longrightarrow> gp02 k = gp02 k') \<and> (c = (0, 3) \<longrightarrow> gp03 k = gp03 k') \<and>
     (c = (1, 0) \<longrightarrow> gp10 k = gp10 k') \<and> (c = (1, 1) \<longrightarrow> gp11 k = gp11 k') \<and>
     (c = (1, 2) \<longrightarrow> gp12 k = gp12 k') \<and> (c = (1, 3) \<longrightarrow> gp13 k = gp13 k') \<and>
     (c = (2, 0) \<longrightarrow> gp20 k = gp20 k') \<and> (c = (2, 1) \<longrightarrow> gp21 k = gp21 k') \<and>
     (c = (2, 3) \<longrightarrow> gp23 k = gp23 k') \<and>
     (c = (3, 0) \<longrightarrow> gp30 k = gp30 k') \<and> (c = (3, 1) \<longrightarrow> gp31 k = gp31 k') \<and>
     (c = (3, 2) \<longrightarrow> gp32 k = gp32 k') \<and> (c = (3, 3) \<longrightarrow> gp33 k = gp33 k')"

text \<open>
  What the overload for temporaries leaves in the storage: the first \<open>c\<close> partitions of
  the left operand combined with the partitions of the right operand at the same
  positions, the others untouched.
\<close>

definition lane_op :: "sse \<Rightarrow> bool \<Rightarrow> partition \<Rightarrow> partition \<Rightarrow> partition" where
  "lane_op u Add x y = (if Add then mm_add_ps u x y else mm_sub_ps u x y)"

definition in_place_parts :: "sse \<Rightarrow> bool \<Rightarrow> entity \<Rightarrow> entity \<Rightarrow> nat \<Rightarrow> partition list" where
  "in_place_parts u Add A B c =
     map (\<lambda>k. if k < c then lane_op u Add (parts A ! k) (parts B ! k) else parts A ! k)
         [0..<length (parts A)]"

section \<open>Mask arithmetic\<close>

lemma test_bit: "((M::8 word) AND 2 ^ i \<noteq> 0) = bit M i"
  by (simp add: and_exp_eq_0_iff_not_bit)

lemma test_1: "((M::8 word) AND 1 > 0) = bit M 0"
  using test_bit[of M 0] by (simp add: word_gt_0)

lemma test_2: "((M::8 word) AND 2 > 0) = bit M 1"
  using test_bit[of M 1] by (simp add: word_gt_0)

lemma test_4: "((M::8 word) AND 4 > 0) = bit M 2"
  using test_bit[of M 2] by (simp add: word_gt_0)

lemma test_8: "((M::8 word) AND 8 > 0) = bit M 3"
  using test_bit[of M 3] by (simp add: word_gt_0)

lemmas mask_tests = test_1 test_2 test_4 test_8

section \<open>Coefficient accessors\<close>

text \<open>
  Claim C7.  Every coefficient accessor returns exactly \<^verbatim>\<open>0.f\<close> (the pattern of +0.0) when
  the slot that holds the coefficient is not in the mask of the entity.  Slot 0 holds
  \<open>e0\<close> .. \<open>e3\<close>, slot 1 the scalar and \<open>e12\<close>, \<open>e31\<close>, \<open>e23\<close>, slot 2 the pseudoscalar and
  \<open>e01\<close>, \<open>e02\<close>, \<open>e03\<close>, slot 3 the trivectors; the flipped duals follow their base
  coefficient.
\<close>

theorem zero_for_absent:
  "(\<not> bit (partition_mask e) 0 \<longrightarrow> e0 e = zero_f \<and> e1 e = zero_f \<and> e2 e = zero_f \<and> e3 e = zero_f) \<and>
   (\<not> bit (partition_mask e) 1 \<longrightarrow>
      scalar e = zero_f \<and> e12 e = zero_f \<and> e31 e = zero_f \<and> e23 e = zero_f \<and>
      e21 e = zero_f \<and> e13 e = zero_f \<and> e32 e = zero_f) \<and>
   (\<not> bit (partition_mask e) 2 \<longrightarrow>
      e0123 e = zero_f \<and> e01 e = zero_f \<and> e02 e = zero_f \<and> e03 e = zero_f \<and>
      e10 e = zero_f \<and> e20 e = zero_f \<and> e30 e = zero_f) \<and>
   (\<not> bit (partition_mask e) 3 \<longrightarrow>
      e123 e = zero_f \<and> e021 e = zero_f \<and> e013 e = zero_f \<and> e032 e = zero_f)"
  by (simp add: mask_tests e0_def e1_def e2_def e3_def scalar_def e12_def e31_def e23_def
      e21_def e13_def e32_def e0123_def e01_def e02_def e03_def e10_def e20_def e30_def
      e123_def e021_def e013_def e032_def)

text \<open>
  An entity of mask \<open>0b1001\<close> has neither slot 1 nor slot 2, one of mask \<open>0b0110\<close> has
  neither slot 0 nor slot 3.
\<close>

theorem zero_for_absent_witness:
  "scalar \<lparr>partition_mask = 0b1001, parts = [(1, 2, 3, 4), (5, 6, 7, 8)]\<rparr> = zero_f \<and>
   e21 \<lparr>partition_mask = 0b1001, parts = [(1, 2, 3, 4), (5, 6, 7, 8)]\<rparr> = zero_f \<and>
   e0123 \<lparr>partition_mask = 0b1001, parts = [(1, 2, 3, 4), (5, 6, 7, 8)]\<rparr> = zero_f \<and>
   e30 \<lparr>partition_mask = 0b1001, parts = [(1, 2, 3, 4), (5, 6, 7, 8)]\<rparr> = zero_f \<and>
   e0 \<lparr>partition_mask = 0b0110, parts = [(1, 2, 3, 4), (5, 6, 7, 8)]\<rparr> = zero_f \<and>
   e032 \<lparr>partition_mask = 0b0110, parts = [(1, 2, 3, 4), (5, 6, 7, 8)]\<rparr> = zero_f"
  using zero_for_absent[of "\<lparr>partition_mask = 0b1001, parts = [(1, 2, 3, 4), (5, 6, 7, 8)]\<rparr>"]
    zero_for_absent[of "\<lparr>partition_mask = 0b0110, parts = [(1, 2, 3, 4), (5, 6, 7, 8)]\<rparr>"]
  by simp

text \<open>
  Claim C8.  Where the slot of a dual pair is in the mask, the flipped accessor returns the
  base accessor's value with the sign flipped: \<open>e21 = -e12\<close>, \<open>e13 = -e31\<close>, \<open>e32 = -e23\<close>
  on slot 1 and \<open>e10 = -e01\<close>, \<open>e20 = -e02\<close>, \<open>e30 = -e03\<close> on slot 2.
\<close>

theorem dual_negation:
  "(bit (partition_mask e) 1 \<longrightarrow>
      e21 e = fneg (e12 e) \<and> e13 e = fneg (e31 e) \<and> e32 e = fneg (e23 e)) \<and>
   (bit (partition_mask e) 2 \<longrightarrow>
      e10 e = fneg (e01 e) \<and> e20 e = fneg (e02 e) \<and> e30 e = fneg (e03 e))"
  by (simp add: mask_tests e12_def e31_def e23_def e21_def e13_def e32_def
      e01_def e02_def e03_def e10_def e20_def e30_def)

text \<open>
  A motor with \<open>e12 = 2.0\<close> (\<open>0x40000000\<close>) and \<open>e03 = -0.0\<close>: \<open>e21\<close> is \<open>-2.0\<close>
  (\<open>0xC0000000\<close>) and \<open>e30\<close> is \<open>+0.0\<close>.
\<close>

theorem dual_negation_witness:
  "e12 \<lparr>partition_mask = 0b110,
        parts = [(0x3F800000, 0x40000000, 0x40400000, 0x40800000),
                 (0, 0x3F000000, 0xBF800000, 0x80000000)]\<rparr> = 0x40000000 \<and>
   e21 \<lparr>partition_mask = 0b110,
        parts = [(0x3F800000, 0x40000000, 0x40400000, 0x40800000),
                 (0, 0x3F000000, 0xBF800000, 0x80000000)]\<rparr> = 0xC0000000 \<and>
   e03 \<lparr>partition_mask = 0b110,
        parts = [(0x3F800000, 0x40000000, 0x40400000, 0x40800000),
                 (0, 0x3F000000, 0xBF800000, 0x80000000)]\<rparr> = 0x80000000 \<and>
   e30 \<lparr>partition_mask = 0b110,
        parts = [(0x3F800000, 0x40000000, 0x40400000, 0x40800000),
                 (0, 0x3F000000, 0xBF800000, 0x80000000)]\<rparr> = 0"
  using dual_negation[of "\<lparr>partition_mask = 0b110,
        parts = [(0x3F800000, 0x40000000, 0x40400000, 0x40800000),
                 (0, 0x3F000000, 0xBF800000, 0x80000000)]\<rparr>"]
  by (simp add: e12_def e03_def partition_offsets_def fneg_def)

text \<open>
  Where the slot is absent both accessors of a pair return +0.0, so the flipped one is not
  the sign-flipped base value (that would be -0.0), though the two compare equal as floats.
\<close>

lemma absent_dual_is_plus_zero:
  "\<not> bit (partition_mask e) 1 \<Longrightarrow>
     e21 e = zero_f \<and> fneg (e12 e) = neg_zero_f \<and> float_eq (e21 e) (fneg (e12 e))"
  by (simp add: mask_tests e12_def e21_def fneg_def zero_f_def neg_zero_f_def float_eq_def
      float_value_def)


section \<open>Directions\<close>

lemma size_t_upto_3: "(i::64 word) \<le> 3 \<Longrightarrow> i = 0 \<or> i = 1 \<or> i = 2 \<or> i = 3"
proof -
  assume "i \<le> 3"
  then have "unat i \<le> 3" by (simp add: word_le_nat_alt)
  then have "unat i = 0 \<or> unat i = 1 \<or> unat i = 2 \<or> unat i = 3" by arith
  then have "of_nat (unat i) = (0::64 word) \<or> of_nat (unat i) = (1::64 word)
      \<or> of_nat (unat i) = (2::64 word) \<or> of_nat (unat i) = (3::64 word)"
    by (elim disjE) simp_all
  then show ?thesis by simp
qed

lemma partition_count_8: "partition_count 8 = 1"
  by (simp add: partition_count_def)

lemma partition_offsets_8: "partition_offsets 8 = [0, 0, 0, 0]"
  by (simp add: partition_offsets_def)

lemma direction_parts:
  "direction junk x y z = \<lparr>partition_mask = 8, parts = [(zero_f, z, y, x)]\<rparr>"
  by (simp add: direction_def new_entity_def partition_count_8 mm_set_ps_def)

text \<open>
  Claim C10.  \<^verbatim>\<open>operator[]\<close> of a direction counts coordinates in the order x, y, z, the
  reverse of the lane order: for \<open>i\<close> in 0..3, \<open>d[i]\<close> is lane \<open>3 - i\<close> of the partition.  For
  \<open>direction(x, y, z)\<close> this gives \<open>d[0] = x = d.x()\<close>, \<open>d[1] = y = d.y()\<close>, \<open>d[2] = z = d.z()\<close>,
  and \<open>d[3]\<close> is the homogeneous lane (the coefficient \<open>e123\<close>), which the constructor sets
  to \<^verbatim>\<open>0.f\<close>.
\<close>

theorem direction_subscript_order:
  "(i \<le> 3 \<longrightarrow> direction_subscript d i = Some (data (parts d ! 0) (3 - unat i))) \<and>
   (partition_mask d = 0b1000 \<longrightarrow> direction_subscript d 3 = Some (e123 d)) \<and>
   direction_subscript (direction junk x y z) 0 = Some x \<and> direction_x (direction junk x y z) = x \<and>
   direction_subscript (direction junk x y z) 1 = Some y \<and> direction_y (direction junk x y z) = y \<and>
   direction_subscript (direction junk x y z) 2 = Some z \<and> direction_z (direction junk x y z) = z \<and>
   direction_subscript (direction junk x y z) 3 = Some zero_f"
proof -
  have "direction_subscript d i = Some (data (parts d ! 0) (3 - unat i))" if "i \<le> 3"
    using size_t_upto_3[OF that] by (elim disjE) (simp_all add: direction_subscript_def)
  moreover have "direction_subscript d 3 = Some (e123 d)" if "partition_mask d = 0b1000"
    using that by (simp add: direction_subscript_def e123_def partition_offsets_8)
  ultimately show ?thesis
    by (simp add: direction_parts direction_subscript_def direction_x_def direction_y_def
        direction_z_def)
qed

text \<open>The direction \<open>(1.0, 2.0, 3.0)\<close>, whose lanes are \<open>(0, 3.0, 2.0, 1.0)\<close>: \<open>d[2]\<close> is \<open>3.0\<close>.\<close>

theorem direction_subscript_order_witness:
  "(2::64 word) \<le> 3 \<and>
   direction_subscript
     \<lparr>partition_mask = 0b1000, parts = [(0, 0x40400000, 0x40000000, 0x3F800000)]\<rparr> 2
     = Some 0x40400000 \<and>
   direction_subscript
     \<lparr>partition_mask = 0b1000, parts = [(0, 0x40400000, 0x40000000, 0x3F800000)]\<rparr> 3
     = Some 0"
  using direction_subscript_order[of 2
      "\<lparr>partition_mask = 0b1000, parts = [(0, 0x40400000, 0x40000000, 0x3F800000)]\<rparr>"]
  by (simp add: e123_def partition_offsets_8)

text \<open>Beyond index 3 the subtraction wraps and the read is outside the partition.\<close>

lemma direction_subscript_out_of_range: "direction_subscript d 4 = None"
  by (simp add: direction_subscript_def)

lemma entity_copy_wf: "wf_entity e \<Longrightarrow> entity_copy e = e"
proof -
  assume "wf_entity e"
  then have "map (\<lambda>i. parts e ! i) [0..<partition_count (partition_mask e)] = parts e"
    using map_nth[of "parts e"] by (simp add: wf_entity_def)
  then show ?thesis by (simp add: entity_copy_def)
qed

lemma within_1e_7_iff:
  "within_1e_7 x \<longleftrightarrow>
     float_less (float_value x) double_1e_7 \<and> float_greater (float_value x) (- double_1e_7)"
  by (cases "float_value x") (auto simp: within_1e_7_def float_less_def float_greater_def)

text \<open>
  Claim C9.  Converting an entity that has slot 3 only into a direction always succeeds
  when \<^verbatim>\<open>PRSTAR_VALIDATE\<close> is not defined (and when \<^verbatim>\<open>assert\<close> is disabled).  In a validated
  build it succeeds when lane 0 of slot 3 is within \<open>1e-7\<close> of zero and fails the assertion
  otherwise; an infinity or a NaN in that lane fails it too.  A conversion that succeeds
  returns the entity unchanged.
\<close>

theorem direction_conversion:
  assumes "wf_entity e" and "partition_mask e = 0b1000"
  shows "direction_of_entity False NDEBUG e = Inr e \<and>
         direction_of_entity True True e = Inr e \<and>
         direction_of_entity True False e
           = (if within_1e_7 (data (p3 e) 0) then Inr e else Inl Assertion_failed) \<and>
         (direction_of_entity True False e = Inl Assertion_failed
            \<longleftrightarrow> \<not> within_1e_7 (data (p3 e) 0)) \<and>
         data (p3 e) 0 = e123 e"
  using assms
  by (simp add: direction_of_entity_def entity_copy_wf within_1e_7_iff e123_def p3_def
      partition_offsets_8 Let_def)

text \<open>
  \<open>0x33D6BF94\<close> is the largest float below \<open>1e-7\<close> and \<open>0x33D6BF95\<close> the smallest one
  above it.
\<close>

theorem direction_conversion_witness:
  "wf_entity \<lparr>partition_mask = 0b1000, parts = [(0x33D6BF95, 0, 0, 0x3F800000)]\<rparr> \<and>
   direction_of_entity False False
       \<lparr>partition_mask = 0b1000, parts = [(0x33D6BF95, 0, 0, 0x3F800000)]\<rparr>
     = Inr \<lparr>partition_mask = 0b1000, parts = [(0x33D6BF95, 0, 0, 0x3F800000)]\<rparr> \<and>
   direction_of_entity True False
       \<lparr>partition_mask = 0b1000, parts = [(0x33D6BF95, 0, 0, 0x3F800000)]\<rparr>
     = Inl Assertion_failed \<and>
   wf_entity \<lparr>partition_mask = 0b1000, parts = [(0x33D6BF94, 0, 0, 0x3F800000)]\<rparr> \<and>
   direction_of_entity True False
       \<lparr>partition_mask = 0b1000, parts = [(0x33D6BF94, 0, 0, 0x3F800000)]\<rparr>
     = Inr \<lparr>partition_mask = 0b1000, parts = [(0x33D6BF94, 0, 0, 0x3F800000)]\<rparr>"
proof -
  have w1: "wf_entity \<lparr>partition_mask = 0b1000, parts = [(0x33D6BF95, 0, 0, 0x3F800000)]\<rparr>"
    by (simp add: wf_entity_def partition_count_8)
  have w2: "wf_entity \<lparr>partition_mask = 0b1000, parts = [(0x33D6BF94, 0, 0, 0x3F800000)]\<rparr>"
    by (simp add: wf_entity_def partition_count_8)
  have n1: "\<not> within_1e_7 0x33D6BF95"
    by (simp add: within_1e_7_def float_value_def double_1e_7_def)
  have n2: "within_1e_7 0x33D6BF94"
    by (simp add: within_1e_7_def float_value_def double_1e_7_def)
  show ?thesis
    using direction_conversion[OF w1, of False] direction_conversion[OF w2, of False] w1 w2 n1 n2
    by (simp add: p3_def partition_offsets_8)
qed

text \<open>
  No float lies between the double \<^verbatim>\<open>1e-7\<close> and the real number \<open>10\<^sup>-\<^sup>7\<close>, so the bound of
  the assertion is the decimal one as well.
\<close>

lemma fraction_less: "unat (take_bit 23 (x::32 word)) < 2 ^ 23"
  using take_bit_nat_less_exp[of 23 "unat x"] by (simp add: unsigned_take_bit_eq)

lemma float_value_magnitude:
  "float_value x =
     (if unat (take_bit 8 (drop_bit 23 x)) = 255
      then (if unat (take_bit 23 x) = 0 then Infinity (bit x 31) else NaN)
      else Finite (if bit x 31
                   then - magnitude (unat (take_bit 8 (drop_bit 23 x))) (unat (take_bit 23 x))
                   else magnitude (unat (take_bit 8 (drop_bit 23 x))) (unat (take_bit 23 x))))"
  by (simp add: float_value_def Let_def magnitude_def)

lemma magnitude_gap:
  assumes "m < 2 ^ 23"
  shows "magnitude e m < double_1e_7 \<longleftrightarrow> magnitude e m < 1 / 10 ^ 7"
proof -
  have dt: "double_1e_7 < 1 / 10 ^ 7" by (simp add: double_1e_7_def)
  consider "e = 0" | "1 \<le> e" "e \<le> 102" | "e = 103" | "104 \<le> e" by linarith
  then show ?thesis
  proof cases
    case 1
    have eq: "magnitude e m = real m / 2 ^ 149"
      using 1 by (simp add: magnitude_def)
    have "real m / 2 ^ 149 < 2 ^ 23 / 2 ^ 149"
      using assms by (simp add: divide_strict_right_mono)
    also have "\<dots> < double_1e_7" by (simp add: double_1e_7_def)
    finally have "magnitude e m < double_1e_7" unfolding eq .
    moreover from this dt have "magnitude e m < 1 / 10 ^ 7" by (rule less_trans)
    ultimately show ?thesis by simp
  next
    case 2
    have eq: "magnitude e m = real (2 ^ 23 + m) * 2 ^ e / 2 ^ 150"
      using 2 by (simp add: magnitude_def)
    have "real (2 ^ 23 + m) * 2 ^ e \<le> 2 ^ 24 * 2 ^ 102"
      using assms 2 by (intro mult_mono power_increasing) simp_all
    then have "real (2 ^ 23 + m) * 2 ^ e / 2 ^ 150 \<le> 2 ^ 24 * 2 ^ 102 / 2 ^ 150"
      by (rule divide_right_mono) simp
    also have "\<dots> < double_1e_7" by (simp add: double_1e_7_def)
    finally have "magnitude e m < double_1e_7" unfolding eq .
    moreover from this dt have "magnitude e m < 1 / 10 ^ 7" by (rule less_trans)
    ultimately show ?thesis by simp
  next
    case 3
    have eq: "magnitude e m = real (2 ^ 23 + m) / 2 ^ 47"
      using 3 by (simp add: magnitude_def)
    have a: "real (2 ^ 23 + m) / 2 ^ 47 < double_1e_7 \<longleftrightarrow> 2 ^ 23 + m \<le> 14073748"
      by (simp add: double_1e_7_def field_simps) linarith
    have b: "real (2 ^ 23 + m) / 2 ^ 47 < 1 / 10 ^ 7 \<longleftrightarrow> 2 ^ 23 + m \<le> 14073748"
      by (simp add: field_simps) linarith
    show ?thesis unfolding eq using a b by blast
  next
    case 4
    have eq: "magnitude e m = real (2 ^ 23 + m) * 2 ^ e / 2 ^ 150"
      using 4 by (simp add: magnitude_def)
    have "(2::real) ^ 23 * 2 ^ 104 \<le> real (2 ^ 23 + m) * 2 ^ e"
      using 4 by (intro mult_mono power_increasing) simp_all
    then have le: "(2::real) ^ 23 * 2 ^ 104 / 2 ^ 150 \<le> real (2 ^ 23 + m) * 2 ^ e / 2 ^ 150"
      by (rule divide_right_mono) simp
    have "1 / 10 ^ 7 < (2::real) ^ 23 * 2 ^ 104 / 2 ^ 150" by simp
    from this le have "1 / 10 ^ 7 < magnitude e m" unfolding eq by (rule less_le_trans)
    with dt have "\<not> magnitude e m < 1 / 10 ^ 7" "\<not> magnitude e m < double_1e_7"
      by linarith+
    then show ?thesis by simp
  qed
qed

lemma magnitude_nonneg: "0 \<le> magnitude e m"
  by (simp add: magnitude_def)

lemma within_1e_7_decimal:
  "within_1e_7 x \<longleftrightarrow> (case float_value x of Finite r \<Rightarrow> \<bar>r\<bar> < 1 / 10 ^ 7 | _ \<Rightarrow> False)"
proof -
  define g where "g = magnitude (unat (take_bit 8 (drop_bit 23 x))) (unat (take_bit 23 x))"
  have fv: "float_value x =
     (if unat (take_bit 8 (drop_bit 23 x)) = 255
      then (if unat (take_bit 23 x) = 0 then Infinity (bit x 31) else NaN)
      else Finite (if bit x 31 then - g else g))"
    unfolding g_def by (rule float_value_magnitude)
  have 1: "g < double_1e_7 \<longleftrightarrow> g < 1 / 10 ^ 7"
    unfolding g_def using fraction_less by (rule magnitude_gap)
  have 2: "0 \<le> g"
    unfolding g_def by (rule magnitude_nonneg)
  show ?thesis
    unfolding within_1e_7_def fv using 1 2 by simp
qed

section \<open>The mask of a product\<close>

lemma nibble_cases:
  "(m::8 word) < 16 \<Longrightarrow> m \<in> {0, 1, 2, 3, 4, 5, 6, 7, 8, 9, 10, 11, 12, 13, 14, 15}"
proof -
  assume "m < 16"
  then have "unat m < 16" by (simp add: word_less_nat_alt)
  then have "unat m \<in> {0, 1, 2, 3, 4, 5, 6, 7, 8, 9, 10, 11, 12, 13, 14, 15}"
    by (simp; arith)
  then have "of_nat (unat m)
      \<in> (of_nat ` {0, 1, 2, 3, 4, 5, 6, 7, 8, 9, 10, 11, 12, 13, 14, 15} :: 8 word set)"
    by blast
  then show ?thesis by simp
qed

lemma promote_1: "(promote m AND 1 \<noteq> 0) = bit m 0"
  using and_exp_eq_0_iff_not_bit[of "ucast m :: 32 word" 0]
  by (simp add: promote_def bit_simps)

lemma promote_2: "(promote m AND 2 \<noteq> 0) = bit m 1"
  using and_exp_eq_0_iff_not_bit[of "ucast m :: 32 word" 1]
  by (simp add: promote_def bit_simps)

lemma promote_4: "(promote m AND 4 \<noteq> 0) = bit m 2"
  using and_exp_eq_0_iff_not_bit[of "ucast m :: 32 word" 2]
  by (simp add: promote_def bit_simps)

lemma promote_8: "(promote m AND 8 \<noteq> 0) = bit m 3"
  using and_exp_eq_0_iff_not_bit[of "ucast m :: 32 word" 3]
  by (simp add: promote_def bit_simps)

lemma and_or_nonzero: "((x::32 word) AND (a OR b) \<noteq> 0) = (x AND a \<noteq> 0 \<or> x AND b \<noteq> 0)"
  by (simp add: bit.conj_disj_distrib or_eq_0_iff)

lemma promote_6: "(promote m AND 6 \<noteq> 0) = (bit m 1 \<or> bit m 2)"
proof -
  have "(6::32 word) = 2 OR 4" by simp
  then show ?thesis
    using and_or_nonzero[of "promote m" 2 4] by (simp add: promote_2 promote_4)
qed

lemma promote_9: "(promote m AND 9 \<noteq> 0) = (bit m 0 \<or> bit m 3)"
proof -
  have "(9::32 word) = 1 OR 8" by simp
  then show ?thesis
    using and_or_nonzero[of "promote m" 1 8] by (simp add: promote_1 promote_8)
qed

text \<open>On a four-bit mask the decimal literal \<^verbatim>\<open>1001\<close> selects the same bits as \<^verbatim>\<open>0b1001\<close>.\<close>

lemma promote_1001: "m < 16 \<Longrightarrow> (promote m AND 1001 \<noteq> 0) = (bit m 0 \<or> bit m 3)"
  by (drule nibble_cases) (auto simp: promote_def)

lemmas promote_tests = promote_1 promote_2 promote_4 promote_8 promote_6 promote_9

lemma bit_out_mask:
  "bit (out_mask a b) n =
     ((n = 0 \<and> p0_set a b) \<or> (n = 1 \<and> p1_set a b) \<or> (n = 2 \<and> p2_set a b) \<or> (n = 3 \<and> p3_set a b))"
  by (auto simp add: out_mask_def bit_simps)

lemma out_mask_less: "out_mask a b < 16"
  by (cases "p0_set a b"; cases "p1_set a b"; cases "p2_set a b"; cases "p3_set a b";
      simp add: out_mask_def)

lemma mask_operator_times:
  "partition_mask (operator_times u k junk A B) = out_mask (partition_mask A) (partition_mask B)"
  by (simp add: operator_times_def Let_def new_entity_def set_p0_def set_p1_def set_p2_def
      set_p3_def)

lemma wf_operator_times: "wf_entity (operator_times u k junk A B)"
  by (simp add: operator_times_def Let_def new_entity_def set_p0_def set_p1_def set_p2_def
      set_p3_def wf_entity_def)

text \<open>
  Claim C1.  For four-bit masks \<open>M1\<close> and \<open>M2\<close> the mask of \<open>A * B\<close> has
  slot 0 iff (M1.p0 and M2.(p1|p2)) or (M1.(p1|p2) and M2.p0) or (M1.p1 and M2.p3) or
  (M1.p3 and M2.p1);
  slot 1 iff (M1.(p0|p3) and M2.(p0|p3)) or (M1.p1 and M2.p1);
  slot 2 iff (M1.(p0|p3) and M2.(p0|p3)) or (M1.p1 and M2.p2) or (M1.p2 and M2.p1);
  slot 3 iff (M1.(p1|p2) and M2.(p0|p3)) or (M1.(p0|p3) and M2.(p1|p2));
  it has no other bit, and the result stores exactly the partitions of its mask.
\<close>

theorem product_mask:
  assumes "partition_mask A < 16" and "partition_mask B < 16"
  shows "let M1 = partition_mask A; M2 = partition_mask B;
             R = partition_mask (operator_times u k junk A B) in
    (bit R 0 \<longleftrightarrow> (bit M1 0 \<and> (bit M2 1 \<or> bit M2 2)) \<or> ((bit M1 1 \<or> bit M1 2) \<and> bit M2 0)
                    \<or> (bit M1 1 \<and> bit M2 3) \<or> (bit M1 3 \<and> bit M2 1)) \<and>
    (bit R 1 \<longleftrightarrow> ((bit M1 0 \<or> bit M1 3) \<and> (bit M2 0 \<or> bit M2 3)) \<or> (bit M1 1 \<and> bit M2 1)) \<and>
    (bit R 2 \<longleftrightarrow> ((bit M1 0 \<or> bit M1 3) \<and> (bit M2 0 \<or> bit M2 3)) \<or> (bit M1 1 \<and> bit M2 2)
                    \<or> (bit M1 2 \<and> bit M2 1)) \<and>
    (bit R 3 \<longleftrightarrow> ((bit M1 1 \<or> bit M1 2) \<and> (bit M2 0 \<or> bit M2 3))
                    \<or> ((bit M1 0 \<or> bit M1 3) \<and> (bit M2 1 \<or> bit M2 2))) \<and>
    R < 16 \<and> wf_entity (operator_times u k junk A B)"
  using assms
  by (simp add: Let_def mask_operator_times bit_out_mask out_mask_less wf_operator_times
      p0_set_def p1_set_def p2_set_def p3_set_def promote_tests promote_1001)

text \<open>A plane (slot 0) times a line (slot 1) has slots 0 and 3, whatever the kernels are.\<close>

theorem product_mask_witness:
  "\<forall>u k junk. (0b0001 :: 8 word) < 16 \<and> (0b0010 :: 8 word) < 16 \<and>
     bit (partition_mask (operator_times u k junk
            \<lparr>partition_mask = 0b0001, parts = [(1, 2, 3, 4)]\<rparr>
            \<lparr>partition_mask = 0b0010, parts = [(5, 6, 7, 8)]\<rparr>)) 0 \<and>
     \<not> bit (partition_mask (operator_times u k junk
            \<lparr>partition_mask = 0b0001, parts = [(1, 2, 3, 4)]\<rparr>
            \<lparr>partition_mask = 0b0010, parts = [(5, 6, 7, 8)]\<rparr>)) 1 \<and>
     \<not> bit (partition_mask (operator_times u k junk
            \<lparr>partition_mask = 0b0001, parts = [(1, 2, 3, 4)]\<rparr>
            \<lparr>partition_mask = 0b0010, parts = [(5, 6, 7, 8)]\<rparr>)) 2 \<and>
     bit (partition_mask (operator_times u k junk
            \<lparr>partition_mask = 0b0001, parts = [(1, 2, 3, 4)]\<rparr>
            \<lparr>partition_mask = 0b0010, parts = [(5, 6, 7, 8)]\<rparr>)) 3"
  using product_mask[of "\<lparr>partition_mask = 0b0001, parts = [(1, 2, 3, 4)]\<rparr>"
                        "\<lparr>partition_mask = 0b0010, parts = [(5, 6, 7, 8)]\<rparr>"]
  by (simp add: Let_def)

text \<open>
  The type of a mask has eight bits.  Beyond four-bit masks the decimal literal reads
  bits 5 to 7 as slots: a mask with bit 5 only makes slots 1 and 2 appear.
\<close>

lemma decimal_literal_beyond_nibble: "out_mask 0b100000 0b0001 = 0b0110"
  by (simp add: out_mask_def p0_set_def p1_set_def p2_set_def p3_set_def promote_def)

section \<open>The pairs of slots without a kernel\<close>












text \<open>
  The list \<open>kernel_calls\<close> names every kernel the product depends on: two sets of kernels
  that agree on the calls listed for a pair of masks give the same product.
\<close>

lemma kernel_calls_mem:
  "(0, 0) \<in> set (kernel_calls M1 M2) \<longleftrightarrow> bit M1 0 \<and> bit M2 0"
  "(0, 1) \<in> set (kernel_calls M1 M2) \<longleftrightarrow> bit M1 0 \<and> bit M2 1"
  "(0, 2) \<in> set (kernel_calls M1 M2) \<longleftrightarrow> bit M1 0 \<and> bit M2 2"
  "(0, 3) \<in> set (kernel_calls M1 M2) \<longleftrightarrow> bit M1 0 \<and> bit M2 3"
  "(1, 0) \<in> set (kernel_calls M1 M2) \<longleftrightarrow> bit M1 1 \<and> bit M2 0"
  "(1, 1) \<in> set (kernel_calls M1 M2) \<longleftrightarrow> bit M1 1 \<and> bit M2 1"
  "(1, 2) \<in> set (kernel_calls M1 M2) \<longleftrightarrow> bit M1 1 \<and> bit M2 2"
  "(1, 3) \<in> set (kernel_calls M1 M2) \<longleftrightarrow> bit M1 1 \<and> bit M2 3"
  "(2, 0) \<in> set (kernel_calls M1 M2) \<longleftrightarrow> bit M1 2 \<and> bit M2 0"
  "(2, 1) \<in> set (kernel_calls M1 M2) \<longleftrightarrow> bit M1 2 \<and> bit M2 1"
  "(2, 3) \<in> set (kernel_calls M1 M2) \<longleftrightarrow> bit M1 2 \<and> bit M2 3"
  "(3, 0) \<in> set (kernel_calls M1 M2) \<longleftrightarrow> bit M1 3 \<and> bit M2 0"
  "(3, 1) \<in> set (kernel_calls M1 M2) \<longleftrightarrow> bit M1 3 \<and> bit M2 1"
  "(3, 2) \<in> set (kernel_calls M1 M2) \<longleftrightarrow> bit M1 3 \<and> bit M2 2"
  "(3, 3) \<in> set (kernel_calls M1 M2) \<longleftrightarrow> bit M1 3 \<and> bit M2 3"
  by (simp_all add: kernel_calls_def mask_tests)


lemma gp_block0_agree:
  assumes "bit (partition_mask B) 0 \<Longrightarrow> gp00 k = gp00 k'"
    and "bit (partition_mask B) 1 \<Longrightarrow> gp01 k = gp01 k'"
    and "bit (partition_mask B) 2 \<Longrightarrow> gp02 k = gp02 k'"
    and "bit (partition_mask B) 3 \<Longrightarrow> gp03 k = gp03 k'"
  shows "gp_block0 u k A B s = gp_block0 u k' A B s"
  using assms
  by (cases "bit (partition_mask B) 0"; cases "bit (partition_mask B) 1";
      cases "bit (partition_mask B) 2"; cases "bit (partition_mask B) 3";
      simp add: gp_block0_def mask_tests Let_def)

lemma gp_block2_agree:
  assumes "bit (partition_mask B) 0 \<Longrightarrow> gp20 k = gp20 k'"
    and "bit (partition_mask B) 1 \<Longrightarrow> gp21 k = gp21 k'"
    and "bit (partition_mask B) 3 \<Longrightarrow> gp23 k = gp23 k'"
  shows "gp_block2 u k A B s = gp_block2 u k' A B s"
  using assms
  by (cases "bit (partition_mask B) 0"; cases "bit (partition_mask B) 1";
      cases "bit (partition_mask B) 3";
      simp add: gp_block2_def mask_tests Let_def)

lemma gp_block1_agree:
  assumes "bit (partition_mask B) 0 \<Longrightarrow> gp10 k = gp10 k'"
    and "bit (partition_mask B) 1 \<Longrightarrow> gp11 k = gp11 k'"
    and "bit (partition_mask B) 2 \<Longrightarrow> gp12 k = gp12 k'"
    and "bit (partition_mask B) 3 \<Longrightarrow> gp13 k = gp13 k'"
  shows "gp_block1 u k A B s = gp_block1 u k' A B s"
  using assms
  by (cases "bit (partition_mask B) 0"; cases "bit (partition_mask B) 1"; cases "bit (partition_mask B) 2"; cases "bit (partition_mask B) 3";
      simp add: gp_block1_def mask_tests Let_def)

lemma gp_block3_agree:
  assumes "bit (partition_mask B) 0 \<Longrightarrow> gp30 k = gp30 k'"
    and "bit (partition_mask B) 1 \<Longrightarrow> gp31 k = gp31 k'"
    and "bit (partition_mask B) 2 \<Longrightarrow> gp32 k = gp32 k'"
    and "bit (partition_mask B) 3 \<Longrightarrow> gp33 k = gp33 k'"
  shows "gp_block3 u k A B s = gp_block3 u k' A B s"
  using assms
  by (cases "bit (partition_mask B) 0"; cases "bit (partition_mask B) 1"; cases "bit (partition_mask B) 2"; cases "bit (partition_mask B) 3";
      simp add: gp_block3_def mask_tests Let_def)

lemma kernel_calls_sound:
  assumes "\<forall>c\<in>set (kernel_calls (partition_mask A) (partition_mask B)). kernels_agree k k' c"
  shows "operator_times u k junk A B = operator_times u k' junk A B"
proof -
  have b0: "gp_block0 u k A B s = gp_block0 u k' A B s" if a: "bit (partition_mask A) 0" for s
  proof (rule gp_block0_agree)
    show "gp00 k = gp00 k'" if "bit (partition_mask B) 0"
      using assms a that kernel_calls_mem(1)[of "partition_mask A" "partition_mask B"]
      by (auto simp: kernels_agree_def)
    show "gp01 k = gp01 k'" if "bit (partition_mask B) 1"
      using assms a that kernel_calls_mem(2)[of "partition_mask A" "partition_mask B"]
      by (auto simp: kernels_agree_def)
    show "gp02 k = gp02 k'" if "bit (partition_mask B) 2"
      using assms a that kernel_calls_mem(3)[of "partition_mask A" "partition_mask B"]
      by (auto simp: kernels_agree_def)
    show "gp03 k = gp03 k'" if "bit (partition_mask B) 3"
      using assms a that kernel_calls_mem(4)[of "partition_mask A" "partition_mask B"]
      by (auto simp: kernels_agree_def)
  qed
  have b1: "gp_block1 u k A B s = gp_block1 u k' A B s" if a: "bit (partition_mask A) 1" for s
  proof (rule gp_block1_agree)
    show "gp10 k = gp10 k'" if "bit (partition_mask B) 0"
      using assms a that kernel_calls_mem(5)[of "partition_mask A" "partition_mask B"]
      by (auto simp: kernels_agree_def)
    show "gp11 k = gp11 k'" if "bit (partition_mask B) 1"
      using assms a that kernel_calls_mem(6)[of "partition_mask A" "partition_mask B"]
      by (auto simp: kernels_agree_def)
    show "gp12 k = gp12 k'" if "bit (partition_mask B) 2"
      using assms a that kernel_calls_mem(7)[of "partition_mask A" "partition_mask B"]
      by (auto simp: kernels_agree_def)
    show "gp13 k = gp13 k'" if "bit (partition_mask B) 3"
      using assms a that kernel_calls_mem(8)[of "partition_mask A" "partition_mask B"]
      by (auto simp: kernels_agree_def)
  qed
  have b2: "gp_block2 u k A B s = gp_block2 u k' A B s" if a: "bit (partition_mask A) 2" for s
  proof (rule gp_block2_agree)
    show "gp20 k = gp20 k'" if "bit (partition_mask B) 0"
      using assms a that kernel_calls_mem(9)[of "partition_mask A" "partition_mask B"]
      by (auto simp: kernels_agree_def)
    show "gp21 k = gp21 k'" if "bit (partition_mask B) 1"
      using assms a that kernel_calls_mem(10)[of "partition_mask A" "partition_mask B"]
      by (auto simp: kernels_agree_def)
    show "gp23 k = gp23 k'" if "bit (partition_mask B) 3"
      using assms a that kernel_calls_mem(11)[of "partition_mask A" "partition_mask B"]
      by (auto simp: kernels_agree_def)
  qed
  have b3: "gp_block3 u k A B s = gp_block3 u k' A B s" if a: "bit (partition_mask A) 3" for s
  proof (rule gp_block3_agree)
    show "gp30 k = gp30 k'" if "bit (partition_mask B) 0"
      using assms a that kernel_calls_mem(12)[of "partition_mask A" "partition_mask B"]
      by (auto simp: kernels_agree_def)
    show "gp31 k = gp31 k'" if "bit (partition_mask B) 1"
      using assms a that kernel_calls_mem(13)[of "partition_mask A" "partition_mask B"]
      by (auto simp: kernels_agree_def)
    show "gp32 k = gp32 k'" if "bit (partition_mask B) 2"
      using assms a that kernel_calls_mem(14)[of "partition_mask A" "partition_mask B"]
      by (auto simp: kernels_agree_def)
    show "gp33 k = gp33 k'" if "bit (partition_mask B) 3"
      using assms a that kernel_calls_mem(15)[of "partition_mask A" "partition_mask B"]
      by (auto simp: kernels_agree_def)
  qed
  have "gp_accumulate u k A B = gp_accumulate u k' A B"
    using b0 b1 b2 b3 by (simp add: gp_accumulate_def mask_tests Let_def)
  then show ?thesis by (simp add: operator_times_def)
qed

section \<open>Offsets\<close>


lemma and_1_of_bool: "((m::8 word) AND 1) = of_bool (bit m 0)"
  by (simp add: and_one_eq mod_2_eq_odd bit_0)

lemma below_1: "below M 1 = of_bool (bit M 0)"
  by simp

lemma below_2: "below M 2 = of_bool (bit M 0) + of_bool (bit M 1)"
  by (simp add: eval_nat_numeral)

lemma below_3: "below M 3 = of_bool (bit M 0) + of_bool (bit M 1) + of_bool (bit M 2)"
  by (simp add: eval_nat_numeral)

lemma below_4:
  "below M 4 = of_bool (bit M 0) + of_bool (bit M 1) + of_bool (bit M 2) + of_bool (bit M 3)"
  by (simp add: eval_nat_numeral)

lemma partition_offsets_below:
  "partition_offsets m = [below m 0, below m 1, below m 2, below m 3]"
  by (simp add: partition_offsets_def and_1_of_bool bit_drop_bit_eq below_2 below_3)

lemma partition_count_below: "partition_count m = below m 4"
  by (simp add: partition_count_def and_1_of_bool bit_drop_bit_eq below_4)

lemma partition_offsets_nth: "i < 4 \<Longrightarrow> partition_offsets m ! i = below m i"
proof -
  assume "i < 4"
  then have "i = 0 \<or> i = 1 \<or> i = 2 \<or> i = 3" by arith
  then show ?thesis unfolding partition_offsets_below by auto
qed

lemma below_mono: "i \<le> j \<Longrightarrow> below M i \<le> below M j"
  by (induction j) (auto simp: le_Suc_eq)

lemma below_strict: "i < j \<Longrightarrow> bit M i \<Longrightarrow> below M i < below M j"
proof -
  assume "i < j" "bit M i"
  then have "below M (Suc i) \<le> below M j" by (intro below_mono) simp
  with \<open>bit M i\<close> show ?thesis by simp
qed

lemma slot_below: "i < 4 \<Longrightarrow> slot e i = parts e ! below (partition_mask e) i"
  by (simp add: slot_def partition_offsets_nth)

lemma slot_in_range:
  "wf_entity e \<Longrightarrow> i < 4 \<Longrightarrow> bit (partition_mask e) i \<Longrightarrow> below (partition_mask e) i < length (parts e)"
  using below_strict[of i 4 "partition_mask e"] by (simp add: wf_entity_def partition_count_below)


section \<open>Addition and subtraction\<close>

lemma slot_bits_eq: "slot_bits = map (\<lambda>i. 2 ^ i) [0..<4]"
  by (simp add: slot_bits_def upt_rec)

lemma add_sub_step_slot:
  assumes "i < 4"
  shows "add_sub_step u Add A B (2 ^ i)
           (ps, below (partition_mask A OR partition_mask B) i, below (partition_mask A) i,
            below (partition_mask B) i)
         = ((if bit (partition_mask A OR partition_mask B) i
             then ps[below (partition_mask A OR partition_mask B) i := add_sub_slot u Add A B i]
             else ps),
            below (partition_mask A OR partition_mask B) (Suc i), below (partition_mask A) (Suc i),
            below (partition_mask B) (Suc i))"
  using assms by (simp add: test_bit add_sub_slot_def slot_below bit_or_iff)

lemma add_sub_loop:
  assumes "n \<le> 4"
  shows "\<exists>ps. fold (add_sub_step u Add A B) (map (\<lambda>i. 2 ^ i) [0..<n]) (ps0, 0, 0, 0)
            = (ps, below (partition_mask A OR partition_mask B) n, below (partition_mask A) n,
               below (partition_mask B) n)
          \<and> length ps = length ps0
          \<and> (\<forall>j<n. bit (partition_mask A OR partition_mask B) j \<longrightarrow>
                below (partition_mask A OR partition_mask B) (Suc j) \<le> length ps0 \<longrightarrow>
                ps ! below (partition_mask A OR partition_mask B) j = add_sub_slot u Add A B j)"
  using assms
proof (induction n)
  case 0
  then show ?case by simp
next
  case (Suc n)
  let ?pm = "partition_mask A OR partition_mask B"
  from Suc obtain ps where
    f: "fold (add_sub_step u Add A B) (map (\<lambda>i. 2 ^ i) [0..<n]) (ps0, 0, 0, 0)
            = (ps, below ?pm n, below (partition_mask A) n, below (partition_mask B) n)"
    and l: "length ps = length ps0"
    and v: "\<forall>j<n. bit ?pm j \<longrightarrow> below ?pm (Suc j) \<le> length ps0 \<longrightarrow>
               ps ! below ?pm j = add_sub_slot u Add A B j"
    by auto
  let ?ps' = "if bit ?pm n then ps[below ?pm n := add_sub_slot u Add A B n] else ps"
  from Suc.prems have n4: "n < 4" by simp
  have "fold (add_sub_step u Add A B) (map (\<lambda>i. 2 ^ i) [0..<Suc n]) (ps0, 0, 0, 0)
        = (?ps', below ?pm (Suc n), below (partition_mask A) (Suc n), below (partition_mask B) (Suc n))"
    using f add_sub_step_slot[OF n4, of u Add A B ps] by simp
  moreover have "length ?ps' = length ps0" using l by simp
  moreover have "\<forall>j<Suc n. bit ?pm j \<longrightarrow> below ?pm (Suc j) \<le> length ps0 \<longrightarrow>
                    ?ps' ! below ?pm j = add_sub_slot u Add A B j"
  proof (intro allI impI)
    fix j assume j: "j < Suc n" and b: "bit ?pm j" and len: "below ?pm (Suc j) \<le> length ps0"
    show "?ps' ! below ?pm j = add_sub_slot u Add A B j"
    proof (cases "j = n")
      case True
      with b len l show ?thesis by simp
    next
      case False
      with j have jn: "j < n" by simp
      then have "below ?pm j < below ?pm n" using b by (rule below_strict)
      then show ?thesis using v jn b len by simp
    qed
  qed
  ultimately show ?case by blast
qed

lemma add_sub_mask:
  "partition_mask (add_sub u junk Add A B) = partition_mask A OR partition_mask B"
  by (simp add: add_sub_def Let_def new_entity_def split: prod.splits)

lemma add_sub_result:
  "wf_entity (add_sub u junk Add A B) \<and>
   (\<forall>i<4. bit (partition_mask A OR partition_mask B) i \<longrightarrow>
            slot (add_sub u junk Add A B) i = add_sub_slot u Add A B i)"
proof -
  let ?pm = "partition_mask A OR partition_mask B"
  let ?ps0 = "map junk [0..<partition_count ?pm]"
  obtain ps where
    f: "fold (add_sub_step u Add A B) slot_bits (?ps0, 0, 0, 0)
            = (ps, below ?pm 4, below (partition_mask A) 4, below (partition_mask B) 4)"
    and l: "length ps = length ?ps0"
    and v: "\<forall>j<4. bit ?pm j \<longrightarrow> below ?pm (Suc j) \<le> length ?ps0 \<longrightarrow>
               ps ! below ?pm j = add_sub_slot u Add A B j"
    using add_sub_loop[of 4 u Add A B ?ps0] unfolding slot_bits_eq by auto
  have r: "add_sub u junk Add A B = \<lparr>partition_mask = ?pm, parts = ps\<rparr>"
    using f by (simp add: add_sub_def new_entity_def)
  have len: "length ps = below ?pm 4"
    using l by (simp add: partition_count_below)
  have "slot (add_sub u junk Add A B) i = add_sub_slot u Add A B i" if "i < 4" "bit ?pm i" for i
  proof -
    have "below ?pm (Suc i) \<le> below ?pm 4" using that by (intro below_mono) simp
    then show ?thesis using v that l len by (simp add: r slot_below)
  qed
  then show ?thesis using len by (simp add: r wf_entity_def partition_count_below)
qed

lemma lanes_lanewise: "lanes (lanewise f x y) = map2 f (lanes x) (lanes y)"
  by (cases x; cases y) (simp add: lanes_def)

lemma lanes_negated: "lanes (mm_xor_ps x (mm_set1_ps neg_zero_f)) = map fneg (lanes x)"
  by (cases x) (simp add: lanes_def mm_xor_ps_def mm_set1_ps_def neg_zero_f_def fneg_def)

text \<open>
  Claim C3.  \<open>A + B\<close> and \<open>A - B\<close> have the mask \<open>M1 OR M2\<close> and store exactly the partitions
  of that mask.  For each slot \<open>i\<close> of the four: when both operands have it, the result
  holds the lane-wise sum (difference); when only the left has it, the left partition;
  when only the right has it, the right partition for a sum and the right partition with
  the sign bit of all four lanes flipped for a difference; when neither has it, the
  result has no such slot.
\<close>

theorem add_sub_slots:
  assumes "i < 4"
  shows "let S = operator_plus u junk A B; D = operator_minus u junk A B;
             a = bit (partition_mask A) i; b = bit (partition_mask B) i in
    partition_mask S = partition_mask A OR partition_mask B \<and>
    partition_mask D = partition_mask A OR partition_mask B \<and>
    wf_entity S \<and> wf_entity D \<and>
    (a \<and> b \<longrightarrow> lanes (slot S i) = map2 (fadd u) (lanes (slot A i)) (lanes (slot B i)) \<and>
                 lanes (slot D i) = map2 (fsub u) (lanes (slot A i)) (lanes (slot B i))) \<and>
    (a \<and> \<not> b \<longrightarrow> slot S i = slot A i \<and> slot D i = slot A i) \<and>
    (\<not> a \<and> b \<longrightarrow> slot S i = slot B i \<and> lanes (slot D i) = map fneg (lanes (slot B i))) \<and>
    (\<not> a \<and> \<not> b \<longrightarrow> \<not> bit (partition_mask S) i \<and> \<not> bit (partition_mask D) i)"
  using assms add_sub_result[of u junk True A B] add_sub_result[of u junk False A B]
  by (auto simp: Let_def operator_plus_def operator_minus_def add_sub_mask bit_or_iff
      add_sub_slot_def mm_add_ps_def mm_sub_ps_def lanes_lanewise lanes_negated)

text \<open>
  Slots 0 and 1 on the left, slots 1 and 2 on the right: slot 0 is copied, slot 1 is
  combined, slot 2 is copied or negated, slot 3 stays absent.
\<close>

theorem add_sub_slots_witness:
  "\<forall>u junk.
     partition_mask (operator_plus u junk \<lparr>partition_mask = 0b0011, parts = [(1, 2, 3, 4), (5, 6, 7, 8)]\<rparr> \<lparr>partition_mask = 0b0110, parts = [(9, 10, 11, 12), (13, 14, 15, 16)]\<rparr>) = 0b0111 \<and>
     slot (operator_plus u junk \<lparr>partition_mask = 0b0011, parts = [(1, 2, 3, 4), (5, 6, 7, 8)]\<rparr> \<lparr>partition_mask = 0b0110, parts = [(9, 10, 11, 12), (13, 14, 15, 16)]\<rparr>) 0 = (1, 2, 3, 4) \<and>
     slot (operator_minus u junk \<lparr>partition_mask = 0b0011, parts = [(1, 2, 3, 4), (5, 6, 7, 8)]\<rparr> \<lparr>partition_mask = 0b0110, parts = [(9, 10, 11, 12), (13, 14, 15, 16)]\<rparr>) 0 = (1, 2, 3, 4) \<and>
     lanes (slot (operator_plus u junk \<lparr>partition_mask = 0b0011, parts = [(1, 2, 3, 4), (5, 6, 7, 8)]\<rparr> \<lparr>partition_mask = 0b0110, parts = [(9, 10, 11, 12), (13, 14, 15, 16)]\<rparr>) 1) = [fadd u 5 9, fadd u 6 10, fadd u 7 11, fadd u 8 12] \<and>
     lanes (slot (operator_minus u junk \<lparr>partition_mask = 0b0011, parts = [(1, 2, 3, 4), (5, 6, 7, 8)]\<rparr> \<lparr>partition_mask = 0b0110, parts = [(9, 10, 11, 12), (13, 14, 15, 16)]\<rparr>) 1) = [fsub u 5 9, fsub u 6 10, fsub u 7 11, fsub u 8 12] \<and>
     slot (operator_plus u junk \<lparr>partition_mask = 0b0011, parts = [(1, 2, 3, 4), (5, 6, 7, 8)]\<rparr> \<lparr>partition_mask = 0b0110, parts = [(9, 10, 11, 12), (13, 14, 15, 16)]\<rparr>) 2 = (13, 14, 15, 16) \<and>
     lanes (slot (operator_minus u junk \<lparr>partition_mask = 0b0011, parts = [(1, 2, 3, 4), (5, 6, 7, 8)]\<rparr> \<lparr>partition_mask = 0b0110, parts = [(9, 10, 11, 12), (13, 14, 15, 16)]\<rparr>) 2) = [fneg 13, fneg 14, fneg 15, fneg 16] \<and>
     \<not> bit (partition_mask (operator_minus u junk \<lparr>partition_mask = 0b0011, parts = [(1, 2, 3, 4), (5, 6, 7, 8)]\<rparr> \<lparr>partition_mask = 0b0110, parts = [(9, 10, 11, 12), (13, 14, 15, 16)]\<rparr>)) 3"
  using add_sub_slots[of 0 _ _ "\<lparr>partition_mask = 0b0011, parts = [(1, 2, 3, 4), (5, 6, 7, 8)]\<rparr>" "\<lparr>partition_mask = 0b0110, parts = [(9, 10, 11, 12), (13, 14, 15, 16)]\<rparr>"] add_sub_slots[of 1 _ _ "\<lparr>partition_mask = 0b0011, parts = [(1, 2, 3, 4), (5, 6, 7, 8)]\<rparr>" "\<lparr>partition_mask = 0b0110, parts = [(9, 10, 11, 12), (13, 14, 15, 16)]\<rparr>"]
    add_sub_slots[of 2 _ _ "\<lparr>partition_mask = 0b0011, parts = [(1, 2, 3, 4), (5, 6, 7, 8)]\<rparr>" "\<lparr>partition_mask = 0b0110, parts = [(9, 10, 11, 12), (13, 14, 15, 16)]\<rparr>"] add_sub_slots[of 3 _ _ "\<lparr>partition_mask = 0b0011, parts = [(1, 2, 3, 4), (5, 6, 7, 8)]\<rparr>" "\<lparr>partition_mask = 0b0110, parts = [(9, 10, 11, 12), (13, 14, 15, 16)]\<rparr>"]
  by (simp add: Let_def slot_def partition_offsets_def lanes_def)

section \<open>Reversion\<close>

lemma p_slot: "p0 e = slot e 0" "p1 e = slot e 1" "p2 e = slot e 2" "p3 e = slot e 3"
  by (simp_all add: p0_def p1_def p2_def p3_def slot_def)

lemma below_distinct: "i \<noteq> j \<Longrightarrow> bit M i \<Longrightarrow> bit M j \<Longrightarrow> below M i \<noteq> below M j"
  using below_strict[of i j M] below_strict[of j i M] by (cases "i < j") auto

lemma operator_tilde_parts:
  assumes "wf_entity A"
  shows "operator_tilde u A =
     \<lparr>partition_mask = partition_mask A,
      parts = tilde_update u A 3 (tilde_update u A 2 (tilde_update u A 1 (parts A)))\<rparr>"
  using assms
  by (cases A) (simp add: operator_tilde_def entity_copy_wf mask_tests set_p1_def set_p2_def set_p3_def
      partition_offsets_below p_slot tilde_update_def sign_pattern_def Let_def)

lemma length_tilde_update: "length (tilde_update u A j ps) = length ps"
  by (simp add: tilde_update_def)

lemma nth_tilde_update_same:
  "bit (partition_mask A) j \<Longrightarrow> below (partition_mask A) j < length ps \<Longrightarrow>
   tilde_update u A j ps ! below (partition_mask A) j = mm_mul_ps u (slot A j) (sign_pattern j)"
  by (simp add: tilde_update_def)

lemma nth_tilde_update_other:
  "i \<noteq> j \<Longrightarrow> bit (partition_mask A) i \<Longrightarrow>
   tilde_update u A j ps ! below (partition_mask A) i = ps ! below (partition_mask A) i"
  using below_distinct[of i j "partition_mask A"] by (auto simp: tilde_update_def)

lemma operator_tilde_mask: "partition_mask (operator_tilde u A) = partition_mask A"
  by (simp add: operator_tilde_def Let_def entity_copy_def set_p1_def set_p2_def set_p3_def)

lemma operator_tilde_wf: "wf_entity A \<Longrightarrow> wf_entity (operator_tilde u A)"
  by (simp add: operator_tilde_parts wf_entity_def length_tilde_update)

lemma operator_tilde_slot:
  assumes "wf_entity A" and "i < 4" and "bit (partition_mask A) i"
  shows "slot (operator_tilde u A) i =
           (if i = 0 then slot A i else mm_mul_ps u (slot A i) (sign_pattern i))"
proof -
  have r: "below (partition_mask A) i < length (parts A)"
    using assms by (rule slot_in_range)
  from \<open>i < 4\<close> have "i = 0 \<or> i = 1 \<or> i = 2 \<or> i = 3" by arith
  then show ?thesis
    using assms(3) r
    by (elim disjE)
       (simp_all add: operator_tilde_parts[OF assms(1)] slot_below length_tilde_update
          nth_tilde_update_same nth_tilde_update_other del: below.simps)
qed


text \<open>Lanes, NaNs and the two multipliers.\<close>

lemma fneg_fneg: "fneg (fneg x) = x"
  by (simp add: fneg_def xor.assoc)

lemma is_nan_iff:
  "is_nan x \<longleftrightarrow> unat (take_bit 8 (drop_bit 23 x)) = 255 \<and> unat (take_bit 23 x) \<noteq> 0"
  by (simp add: is_nan_def float_value_def Let_def)

lemma sign_bit: "(0x80000000 :: lane) = 2 ^ 31"
  by simp

lemma fraction_fneg: "take_bit 23 (fneg x) = take_bit 23 x"
  unfolding fneg_def sign_bit by simp

lemma exponent_fneg: "take_bit 8 (drop_bit 23 (fneg x)) = take_bit 8 (drop_bit 23 x)"
  unfolding fneg_def sign_bit by (simp add: drop_bit_exp_eq)

lemma is_nan_fneg: "is_nan (fneg x) = is_nan x"
  by (simp only: is_nan_iff fraction_fneg exponent_fneg)

lemma ieee_sign_mul_unit: "ieee_sign_mul mulps_sign_unit"
  by (simp add: ieee_sign_mul_def mulps_sign_unit_def one_f_def neg_one_f_def)

lemma data_lanewise: "data (lanewise f x y) k = f (data x k) (data y k)"
  by (cases x; cases y) simp

lemma data_mul: "data (mm_mul_ps u x y) k = fmul u (data x k) (data y k)"
  by (simp add: mm_mul_ps_def data_lanewise)

lemma data_sign_pattern:
  "data (sign_pattern i) k = (if i \<noteq> 3 \<and> k = 0 then one_f else neg_one_f)"
  by (simp add: sign_pattern_def mm_set_ps_def mm_set1_ps_def)

lemma partition_eq_data:
  assumes "\<And>k. k < 4 \<Longrightarrow> data x k = data y k"
  shows "x = y"
  using assms[of 0] assms[of 1] assms[of 2] assms[of 3] by (cases x; cases y) simp

lemma lane_once:
  assumes "ieee_sign_mul u" and "\<not> is_nan x"
  shows "fmul u x (data (sign_pattern i) k) = (if i \<noteq> 3 \<and> k = 0 then x else fneg x)"
  using assms by (simp add: ieee_sign_mul_def data_sign_pattern)

lemma lane_twice:
  assumes "ieee_sign_mul u" and "\<not> is_nan x"
  shows "fmul u (fmul u x (data (sign_pattern i) k)) (data (sign_pattern i) k) = x"
proof (cases "i \<noteq> 3 \<and> k = 0")
  case True
  then show ?thesis using assms by (simp add: ieee_sign_mul_def data_sign_pattern)
next
  case False
  then have c: "data (sign_pattern i) k = neg_one_f"
    by (auto simp: data_sign_pattern)
  have "\<not> is_nan (fneg x)" using assms(2) by (simp add: is_nan_fneg)
  then have "fmul u (fneg x) neg_one_f = fneg (fneg x)"
    using assms(1) by (simp add: ieee_sign_mul_def)
  moreover have "fmul u x neg_one_f = fneg x"
    using assms by (simp add: ieee_sign_mul_def)
  ultimately show ?thesis unfolding c by (simp add: fneg_fneg)
qed

lemma reversion_lane:
  assumes "wf_entity A" and "i < 4" and "i \<noteq> 0" and "bit (partition_mask A) i"
  shows "data (slot (operator_tilde u A) i) k
           = fmul u (data (slot A i) k) (data (sign_pattern i) k)"
  using operator_tilde_slot[OF assms(1,2,4), of u] assms(3) by (simp add: data_mul)

text \<open>What \<^verbatim>\<open>operator~\<close> computes, whatever the multiplication is.\<close>

lemma reversion_products:
  assumes "wf_entity A"
  shows "let R = operator_tilde u A; M = partition_mask A in
     partition_mask R = M \<and> wf_entity R \<and>
     (bit M 0 \<longrightarrow> p0 R = p0 A) \<and>
     (bit M 1 \<longrightarrow> p1 R = mm_mul_ps u (p1 A) (mm_set_ps neg_one_f neg_one_f neg_one_f one_f)) \<and>
     (bit M 2 \<longrightarrow> p2 R = mm_mul_ps u (p2 A) (mm_set_ps neg_one_f neg_one_f neg_one_f one_f)) \<and>
     (bit M 3 \<longrightarrow> p3 R = mm_mul_ps u (p3 A) (mm_set1_ps neg_one_f))"
  using assms operator_tilde_slot[OF assms, of 0 u] operator_tilde_slot[OF assms, of 1 u]
    operator_tilde_slot[OF assms, of 2 u] operator_tilde_slot[OF assms, of 3 u]
  by (simp add: Let_def operator_tilde_mask operator_tilde_wf p_slot sign_pattern_def)

lemma partition_count_2: "partition_count 2 = 1"
  by (simp add: partition_count_def)

lemma partition_offsets_2: "partition_offsets 2 = [0, 0, 1, 1]"
  by (simp add: partition_offsets_def)

text \<open>
  An entity with slot 1 only, whose lane 0 is a signalling NaN and whose lane 1 is a
  quiet NaN, reversed once and twice.
\<close>

lemma tilde_nan_entity:
  "operator_tilde mulps_sign_unit
      \<lparr>partition_mask = 0b0010, parts = [(0x7FA00000, 0x7FC00000, 0x40400000, 0x40800000)]\<rparr>
   = \<lparr>partition_mask = 0b0010, parts = [(0x7FE00000, 0x7FC00000, 0xC0400000, 0xC0800000)]\<rparr>"
  by (simp add: operator_tilde_def entity_copy_def partition_count_2 partition_offsets_2
      set_p1_def p1_def mm_mul_ps_def mm_set_ps_def mulps_sign_unit_def is_nan_iff quiet_def
      fneg_def one_f_def neg_one_f_def)

lemma tilde_nan_entity_twice:
  "operator_tilde mulps_sign_unit
      \<lparr>partition_mask = 0b0010, parts = [(0x7FE00000, 0x7FC00000, 0xC0400000, 0xC0800000)]\<rparr>
   = \<lparr>partition_mask = 0b0010, parts = [(0x7FE00000, 0x7FC00000, 0x40400000, 0x40800000)]\<rparr>"
  by (simp add: operator_tilde_def entity_copy_def partition_count_2 partition_offsets_2
      set_p1_def p1_def mm_mul_ps_def mm_set_ps_def mulps_sign_unit_def is_nan_iff quiet_def
      fneg_def one_f_def neg_one_f_def)

text \<open>
  Claim C4 as the specification states it, refuted.  The claim is for every entity.  On
  the entity above, with a multiplication that treats NaNs as \<^verbatim>\<open>MULPS\<close> does, lane 0 of
  slot 1 is not unchanged (the signalling NaN comes back quiet) and lane 1 is not negated
  (the quiet NaN keeps its sign).
\<close>

theorem reversion_changes_nan_lanes:
  "wf_entity
     \<lparr>partition_mask = 0b0010, parts = [(0x7FA00000, 0x7FC00000, 0x40400000, 0x40800000)]\<rparr> \<and>
   data (p1 (operator_tilde mulps_sign_unit
     \<lparr>partition_mask = 0b0010, parts = [(0x7FA00000, 0x7FC00000, 0x40400000, 0x40800000)]\<rparr>)) 0
     \<noteq> data (p1
     \<lparr>partition_mask = 0b0010, parts = [(0x7FA00000, 0x7FC00000, 0x40400000, 0x40800000)]\<rparr>) 0 \<and>
   data (p1 (operator_tilde mulps_sign_unit
     \<lparr>partition_mask = 0b0010, parts = [(0x7FA00000, 0x7FC00000, 0x40400000, 0x40800000)]\<rparr>)) 1
     \<noteq> fneg (data (p1
     \<lparr>partition_mask = 0b0010, parts = [(0x7FA00000, 0x7FC00000, 0x40400000, 0x40800000)]\<rparr>) 1)"
  by (simp add: tilde_nan_entity wf_entity_def partition_count_2 partition_offsets_2 p1_def
      fneg_def)

text \<open>
  Claim C4, amended.  For every entity \<open>A\<close>, under a multiplication that is exact on
  numbers for the multipliers \<^verbatim>\<open>1.f\<close> and \<^verbatim>\<open>-1.f\<close>: \<open>~A\<close> has the mask of \<open>A\<close> and stores the
  partitions of that mask; slot 0 is unchanged entirely, NaNs included; in slots 1 and 2
  every lane that is not a NaN is unchanged if it is lane 0 and has its sign flipped if it
  is lane 1, 2 or 3; in slot 3 every lane that is not a NaN has its sign flipped.
\<close>

theorem reversion_slots:
  assumes "wf_entity A" and "ieee_sign_mul u"
  shows "let R = operator_tilde u A; M = partition_mask A in
     partition_mask R = M \<and> wf_entity R \<and>
     (bit M 0 \<longrightarrow> p0 R = p0 A) \<and>
     (bit M 1 \<longrightarrow> (\<forall>k<4. \<not> is_nan (data (p1 A) k) \<longrightarrow>
        data (p1 R) k = (if k = 0 then data (p1 A) k else fneg (data (p1 A) k)))) \<and>
     (bit M 2 \<longrightarrow> (\<forall>k<4. \<not> is_nan (data (p2 A) k) \<longrightarrow>
        data (p2 R) k = (if k = 0 then data (p2 A) k else fneg (data (p2 A) k)))) \<and>
     (bit M 3 \<longrightarrow> (\<forall>k<4. \<not> is_nan (data (p3 A) k) \<longrightarrow>
        data (p3 R) k = fneg (data (p3 A) k)))"
proof -
  have l: "data (slot (operator_tilde u A) i) k
             = (if i \<noteq> 3 \<and> k = 0 then data (slot A i) k else fneg (data (slot A i) k))"
    if "i < 4" "i \<noteq> 0" "bit (partition_mask A) i" "\<not> is_nan (data (slot A i) k)" for i k
    using reversion_lane[OF assms(1) that(1,2,3), of u k] lane_once[OF assms(2) that(4), of i k]
    by simp
  show ?thesis
    using reversion_products[OF assms(1), of u] l[of 1] l[of 2] l[of 3]
    by (simp add: Let_def p_slot)
qed

lemma all_less_4: "(\<forall>k<4. P k) \<longleftrightarrow> P 0 \<and> P 1 \<and> P 2 \<and> P (3::nat)"
proof -
  have "k < 4 \<longleftrightarrow> k = 0 \<or> k = 1 \<or> k = 2 \<or> k = 3" for k :: nat by arith
  then show ?thesis by auto
qed

text \<open>
  An entity with all four slots.  Its slot 0 holds a NaN, which the reversion copies; the
  lanes of the other slots are numbers, two zeros among them.
\<close>

theorem reversion_slots_witness:
  "wf_entity \<lparr>partition_mask = 0b1111,
      parts = [(0x7FC00000, 0x40000000, 0x40400000, 0x40800000),
               (0x3F800000, 0x40000000, 0xC0400000, 0),
               (0x40A00000, 0x80000000, 0x3F000000, 0xBF800000),
               (0x3F800000, 0x40000000, 0x40400000, 0xC0800000)]\<rparr> \<and>
   ieee_sign_mul mulps_sign_unit \<and>
   partition_mask (operator_tilde mulps_sign_unit \<lparr>partition_mask = 0b1111,
      parts = [(0x7FC00000, 0x40000000, 0x40400000, 0x40800000),
               (0x3F800000, 0x40000000, 0xC0400000, 0),
               (0x40A00000, 0x80000000, 0x3F000000, 0xBF800000),
               (0x3F800000, 0x40000000, 0x40400000, 0xC0800000)]\<rparr>) = 0b1111 \<and>
   p0 (operator_tilde mulps_sign_unit \<lparr>partition_mask = 0b1111,
      parts = [(0x7FC00000, 0x40000000, 0x40400000, 0x40800000),
               (0x3F800000, 0x40000000, 0xC0400000, 0),
               (0x40A00000, 0x80000000, 0x3F000000, 0xBF800000),
               (0x3F800000, 0x40000000, 0x40400000, 0xC0800000)]\<rparr>)
     = (0x7FC00000, 0x40000000, 0x40400000, 0x40800000) \<and>
   lanes (p1 (operator_tilde mulps_sign_unit \<lparr>partition_mask = 0b1111,
      parts = [(0x7FC00000, 0x40000000, 0x40400000, 0x40800000),
               (0x3F800000, 0x40000000, 0xC0400000, 0),
               (0x40A00000, 0x80000000, 0x3F000000, 0xBF800000),
               (0x3F800000, 0x40000000, 0x40400000, 0xC0800000)]\<rparr>))
     = [0x3F800000, 0xC0000000, 0x40400000, 0x80000000] \<and>
   lanes (p2 (operator_tilde mulps_sign_unit \<lparr>partition_mask = 0b1111,
      parts = [(0x7FC00000, 0x40000000, 0x40400000, 0x40800000),
               (0x3F800000, 0x40000000, 0xC0400000, 0),
               (0x40A00000, 0x80000000, 0x3F000000, 0xBF800000),
               (0x3F800000, 0x40000000, 0x40400000, 0xC0800000)]\<rparr>))
     = [0x40A00000, 0, 0xBF000000, 0x3F800000] \<and>
   lanes (p3 (operator_tilde mulps_sign_unit \<lparr>partition_mask = 0b1111,
      parts = [(0x7FC00000, 0x40000000, 0x40400000, 0x40800000),
               (0x3F800000, 0x40000000, 0xC0400000, 0),
               (0x40A00000, 0x80000000, 0x3F000000, 0xBF800000),
               (0x3F800000, 0x40000000, 0x40400000, 0xC0800000)]\<rparr>))
     = [0xBF800000, 0xC0000000, 0xC0400000, 0x40800000]"
proof -
  have w: "wf_entity \<lparr>partition_mask = 0b1111,
      parts = [(0x7FC00000, 0x40000000, 0x40400000, 0x40800000),
               (0x3F800000, 0x40000000, 0xC0400000, 0),
               (0x40A00000, 0x80000000, 0x3F000000, 0xBF800000),
               (0x3F800000, 0x40000000, 0x40400000, 0xC0800000)]\<rparr>"
    by (simp add: wf_entity_def partition_count_def)
  show ?thesis
    using reversion_slots[OF w ieee_sign_mul_unit] w ieee_sign_mul_unit
    by (simp add: Let_def operator_tilde_mask p0_def p1_def p2_def p3_def partition_offsets_def
        lanes_def fneg_def all_less_4 is_nan_iff)
qed

lemma below_covers: "k < below M n \<Longrightarrow> \<exists>i<n. bit M i \<and> below M i = k"
proof (induction n)
  case 0
  then show ?case by simp
next
  case (Suc n)
  show ?case
  proof (cases "k < below M n")
    case True
    with Suc.IH obtain i where "i < n" "bit M i" "below M i = k" by blast
    then show ?thesis by (intro exI[of _ i]) simp
  next
    case False
    with Suc.prems have "bit M n" "below M n = k" by (cases "bit M n"; simp)+
    then show ?thesis by (intro exI[of _ n]) simp
  qed
qed

lemma entity_eq_slots:
  assumes "wf_entity X" and "wf_entity Y" and "partition_mask X = partition_mask Y"
    and "\<And>i. i < 4 \<Longrightarrow> bit (partition_mask Y) i \<Longrightarrow> slot X i = slot Y i"
  shows "X = Y"
proof -
  have len: "length (parts X) = length (parts Y)"
    using assms(1-3) by (simp add: wf_entity_def)
  have "parts X ! k = parts Y ! k" if "k < length (parts X)" for k
  proof -
    from that have "k < below (partition_mask Y) 4"
      using assms(2) len by (simp add: wf_entity_def partition_count_below)
    then obtain i where i: "i < 4" "bit (partition_mask Y) i" "below (partition_mask Y) i = k"
      using below_covers by blast
    then show ?thesis using assms(4)[OF i(1,2)] assms(3) by (simp add: slot_below)
  qed
  then have "parts X = parts Y" using len by (intro nth_equalityI) simp_all
  then show ?thesis using assms(3) by simp
qed

lemma involution_lane:
  assumes "wf_entity A" and "ieee_sign_mul u" and "i < 4" and "i \<noteq> 0"
    and "bit (partition_mask A) i" and "\<not> is_nan (data (slot A i) k)"
  shows "data (slot (operator_tilde u (operator_tilde u A)) i) k = data (slot A i) k"
proof -
  have "data (slot (operator_tilde u (operator_tilde u A)) i) k
          = fmul u (data (slot (operator_tilde u A) i) k) (data (sign_pattern i) k)"
    using assms(1,3,4,5)
    by (intro reversion_lane) (simp_all add: operator_tilde_wf operator_tilde_mask)
  also have "data (slot (operator_tilde u A) i) k
          = fmul u (data (slot A i) k) (data (sign_pattern i) k)"
    using assms(1,3,4,5) by (rule reversion_lane)
  finally show ?thesis using lane_twice[OF assms(2,6)] by simp
qed

lemma involution_slot_0:
  assumes "wf_entity A" and "bit (partition_mask A) 0"
  shows "slot (operator_tilde u (operator_tilde u A)) 0 = slot A 0"
  using operator_tilde_slot[of "operator_tilde u A" 0 u] operator_tilde_slot[of A 0 u] assms
  by (simp add: operator_tilde_wf operator_tilde_mask)

text \<open>
  Claim C5 as the specification states it, refuted.  The claim is for every entity, every
  lane recovered bit for bit.  On the entity above the lane that held a signalling NaN
  holds a quiet one after two reversions.
\<close>

theorem reversion_twice_changes_nan_lane:
  "wf_entity \<lparr>partition_mask = 0b0010, parts = [(0x7FA00000, 0x7FC00000, 0x40400000, 0x40800000)]\<rparr> \<and>
   operator_tilde mulps_sign_unit (operator_tilde mulps_sign_unit
      \<lparr>partition_mask = 0b0010, parts = [(0x7FA00000, 0x7FC00000, 0x40400000, 0x40800000)]\<rparr>)
     \<noteq> \<lparr>partition_mask = 0b0010, parts = [(0x7FA00000, 0x7FC00000, 0x40400000, 0x40800000)]\<rparr>"
  by (simp add: tilde_nan_entity tilde_nan_entity_twice wf_entity_def partition_count_2)

text \<open>
  Claim C5, amended.  For every entity \<open>A\<close>, under a multiplication that is exact on
  numbers for the multipliers \<^verbatim>\<open>1.f\<close> and \<^verbatim>\<open>-1.f\<close>: \<open>~~A\<close> has the mask of \<open>A\<close> and stores the
  partitions of that mask; slot 0 is recovered entirely, NaNs included; every lane of
  slots 1, 2 and 3 that is not a NaN is recovered bit for bit; and \<open>~~A = A\<close> when no lane
  of slots 1, 2 and 3 is a NaN.
\<close>

theorem reversion_involution:
  assumes "wf_entity A" and "ieee_sign_mul u"
  shows "let R = operator_tilde u (operator_tilde u A); M = partition_mask A in
     partition_mask R = M \<and> wf_entity R \<and>
     (bit M 0 \<longrightarrow> p0 R = p0 A) \<and>
     (\<forall>i\<in>{1, 2, 3}. bit M i \<longrightarrow>
        (\<forall>k<4. \<not> is_nan (data (slot A i) k) \<longrightarrow> data (slot R i) k = data (slot A i) k)) \<and>
     ((\<forall>i\<in>{1, 2, 3}. bit M i \<longrightarrow> (\<forall>k<4. \<not> is_nan (data (slot A i) k))) \<longrightarrow> R = A)"
proof -
  let ?R = "operator_tilde u (operator_tilde u A)"
  have m: "partition_mask ?R = partition_mask A"
    by (simp add: operator_tilde_mask)
  have w: "wf_entity ?R"
    using assms(1) by (intro operator_tilde_wf)
  have l: "data (slot ?R i) k = data (slot A i) k"
    if "i \<in> {1, 2, 3}" "bit (partition_mask A) i" "\<not> is_nan (data (slot A i) k)" for i k
    using that assms by (intro involution_lane) auto
  have e: "?R = A"
    if n: "\<forall>i\<in>{1, 2, 3}. bit (partition_mask A) i \<longrightarrow> (\<forall>k<4. \<not> is_nan (data (slot A i) k))"
  proof (rule entity_eq_slots[OF w assms(1) m])
    fix i assume i: "i < 4" "bit (partition_mask A) i"
    show "slot ?R i = slot A i"
    proof (cases "i = 0")
      case True
      then show ?thesis using involution_slot_0[OF assms(1)] i by simp
    next
      case False
      with i have "i \<in> {1, 2, 3}" by auto
      then show ?thesis using n i l by (intro partition_eq_data) blast
    qed
  qed
  show ?thesis
    using m w l e involution_slot_0[OF assms(1), of u]
    by (simp add: Let_def p_slot)
qed

theorem reversion_involution_witness:
  "wf_entity \<lparr>partition_mask = 0b1111,
      parts = [(0x7FC00000, 0x40000000, 0x40400000, 0x40800000),
               (0x3F800000, 0x40000000, 0xC0400000, 0),
               (0x40A00000, 0x80000000, 0x3F000000, 0xBF800000),
               (0x3F800000, 0x40000000, 0x40400000, 0xC0800000)]\<rparr> \<and>
   ieee_sign_mul mulps_sign_unit \<and>
   operator_tilde mulps_sign_unit (operator_tilde mulps_sign_unit \<lparr>partition_mask = 0b1111,
      parts = [(0x7FC00000, 0x40000000, 0x40400000, 0x40800000),
               (0x3F800000, 0x40000000, 0xC0400000, 0),
               (0x40A00000, 0x80000000, 0x3F000000, 0xBF800000),
               (0x3F800000, 0x40000000, 0x40400000, 0xC0800000)]\<rparr>)
     = \<lparr>partition_mask = 0b1111,
      parts = [(0x7FC00000, 0x40000000, 0x40400000, 0x40800000),
               (0x3F800000, 0x40000000, 0xC0400000, 0),
               (0x40A00000, 0x80000000, 0x3F000000, 0xBF800000),
               (0x3F800000, 0x40000000, 0x40400000, 0xC0800000)]\<rparr>"
proof -
  have w: "wf_entity \<lparr>partition_mask = 0b1111,
      parts = [(0x7FC00000, 0x40000000, 0x40400000, 0x40800000),
               (0x3F800000, 0x40000000, 0xC0400000, 0),
               (0x40A00000, 0x80000000, 0x3F000000, 0xBF800000),
               (0x3F800000, 0x40000000, 0x40400000, 0xC0800000)]\<rparr>"
    by (simp add: wf_entity_def partition_count_def)
  show ?thesis
    using reversion_involution[OF w ieee_sign_mul_unit] w ieee_sign_mul_unit
    by (simp add: Let_def slot_def partition_offsets_def all_less_4 is_nan_iff)
qed

section \<open>The overload for temporaries\<close>

text \<open>
  Claim C6 says that the overload \<^verbatim>\<open>add_sub(...) &&\<close> returns what the \<^verbatim>\<open>const&\<close> overload
  returns.  The code does not do so: its loop advances \<^verbatim>\<open>offset\<close> only on the slots of the
  right operand, so a slot that the left operand alone has, below one that both have, is
  not stepped over.  With slots 0 and 1 on the left and slot 1 on the right, the right
  partition is added to slot 0 of the left; the \<^verbatim>\<open>const&\<close> overload adds it to slot 1.
\<close>

theorem add_sub_rvalue_diverges:
  "add_sub_rvalue u junk True \<lparr>partition_mask = 0b0011, parts = [a0, a1]\<rparr>
                              \<lparr>partition_mask = 0b0010, parts = [b]\<rparr>
     = \<lparr>partition_mask = 0b0011, parts = [mm_add_ps u a0 b, a1]\<rparr> \<and>
   add_sub u junk True \<lparr>partition_mask = 0b0011, parts = [a0, a1]\<rparr>
                       \<lparr>partition_mask = 0b0010, parts = [b]\<rparr>
     = \<lparr>partition_mask = 0b0011, parts = [a0, mm_add_ps u a1 b]\<rparr>"
  by (simp add: add_sub_rvalue_def add_sub_def slot_bits_def entity_copy_def new_entity_def
      partition_count_def upt_rec)

text \<open>When the result mask differs from the mask of the left operand the overload delegates.\<close>

lemma add_sub_rvalue_delegates:
  "partition_mask A OR partition_mask B \<noteq> partition_mask A \<Longrightarrow>
   add_sub_rvalue u junk Add A B = add_sub u junk Add A B"
  by (simp add: add_sub_rvalue_def Let_def)

text \<open>
  What the overload does in its in-place branch: it combines the \<open>k\<close>-th stored partition
  of the left operand with the \<open>k\<close>-th stored partition of the right one, whatever slots
  they belong to.
\<close>

lemma below_subset:
  assumes "(M1::8 word) OR M2 = M1"
  shows "below M2 n \<le> below M1 n"
proof (induction n)
  case 0
  show ?case by simp
next
  case (Suc n)
  have "bit M1 n" if "bit M2 n"
    using that bit_or_iff[of M1 M2 n] assms by simp
  with Suc show ?case by (cases "bit M2 n") simp_all
qed

lemma add_sub_rvalue_step_slot:
  "add_sub_rvalue_step u Add B (2 ^ i) (ps, below (partition_mask B) i, below (partition_mask B) i)
     = ((if bit (partition_mask B) i
         then ps[below (partition_mask B) i :=
                   lane_op u Add (ps ! below (partition_mask B) i)
                     (parts B ! below (partition_mask B) i)]
         else ps),
        below (partition_mask B) (Suc i), below (partition_mask B) (Suc i))"
  by (simp add: test_bit lane_op_def)

lemma in_place_parts_step:
  assumes "c < length (parts A)"
  shows "(in_place_parts u Add A B c)
            [c := lane_op u Add (in_place_parts u Add A B c ! c) (parts B ! c)]
         = in_place_parts u Add A B (Suc c)"
  using assms
  by (intro nth_equalityI) (auto simp: in_place_parts_def nth_list_update less_Suc_eq)

lemma add_sub_rvalue_loop:
  assumes "below (partition_mask B) n \<le> length (parts A)"
  shows "fold (add_sub_rvalue_step u Add B) (map (\<lambda>i. 2 ^ i) [0..<n]) (parts A, 0, 0)
           = (in_place_parts u Add A B (below (partition_mask B) n),
              below (partition_mask B) n, below (partition_mask B) n)"
  using assms
proof (induction n)
  case 0
  have "in_place_parts u Add A B 0 = parts A"
    by (simp add: in_place_parts_def map_nth)
  then show ?case by simp
next
  case (Suc n)
  then have f: "fold (add_sub_rvalue_step u Add B) (map (\<lambda>i. 2 ^ i) [0..<n]) (parts A, 0, 0)
           = (in_place_parts u Add A B (below (partition_mask B) n),
              below (partition_mask B) n, below (partition_mask B) n)"
    by simp
  show ?case
  proof (cases "bit (partition_mask B) n")
    case True
    with Suc.prems have "below (partition_mask B) n < length (parts A)" by simp
    then show ?thesis
      using f True in_place_parts_step[of "below (partition_mask B) n" A u Add B]
      by (simp add: add_sub_rvalue_step_slot del: add_sub_rvalue_step.simps)
  next
    case False
    then show ?thesis
      using f by (simp add: add_sub_rvalue_step_slot del: add_sub_rvalue_step.simps)
  qed
qed

lemma add_sub_rvalue_in_place:
  assumes "wf_entity A" and "partition_mask A OR partition_mask B = partition_mask A"
  shows "add_sub_rvalue u junk Add A B =
           \<lparr>partition_mask = partition_mask A,
            parts = in_place_parts u Add A B (partition_count (partition_mask B))\<rparr>"
proof -
  define P where "P = in_place_parts u Add A B (partition_count (partition_mask B))"
  have "below (partition_mask B) 4 \<le> length (parts A)"
    using below_subset[OF assms(2), of 4] assms(1)
    by (simp add: wf_entity_def partition_count_below)
  then have "fold (add_sub_rvalue_step u Add B) slot_bits (parts A, 0, 0)
           = (P, below (partition_mask B) 4, below (partition_mask B) 4)"
    unfolding slot_bits_eq P_def partition_count_below by (rule add_sub_rvalue_loop)
  then have 1: "add_sub_rvalue u junk Add A B = entity_copy (A\<lparr>parts := P\<rparr>)"
    using assms(2) by (simp add: add_sub_rvalue_def)
  have 2: "A\<lparr>parts := P\<rparr> = \<lparr>partition_mask = partition_mask A, parts = P\<rparr>"
    by (cases A) simp
  have 3: "wf_entity \<lparr>partition_mask = partition_mask A, parts = P\<rparr>"
    using assms(1) by (simp add: wf_entity_def in_place_parts_def P_def)
  show ?thesis
    unfolding 1 2 using entity_copy_wf[OF 3] by (simp add: P_def)
qed

text \<open>With the same mask on both sides the two overloads agree.\<close>

lemma add_sub_rvalue_equal_masks:
  assumes "wf_entity A" and "partition_mask B = partition_mask A"
  shows "add_sub_rvalue u junk Add A B = add_sub u junk Add A B"
proof (rule entity_eq_slots)
  let ?M = "partition_mask A"
  have r: "add_sub_rvalue u junk Add A B =
           \<lparr>partition_mask = ?M, parts = in_place_parts u Add A B (partition_count ?M)\<rparr>"
    using add_sub_rvalue_in_place[OF assms(1), of B u junk Add] assms(2) by simp
  show "wf_entity (add_sub_rvalue u junk Add A B)"
    using assms(1) by (simp add: r wf_entity_def in_place_parts_def)
  show "wf_entity (add_sub u junk Add A B)"
    using add_sub_result[of u junk Add A B] by simp
  show "partition_mask (add_sub_rvalue u junk Add A B) = partition_mask (add_sub u junk Add A B)"
    using assms(2) by (simp add: r add_sub_mask)
  fix i assume i: "i < 4" "bit (partition_mask (add_sub u junk Add A B)) i"
  then have b: "bit ?M i" using assms(2) by (simp add: add_sub_mask)
  have k: "below ?M i < length (parts A)" using assms(1) i(1) b by (rule slot_in_range)
  have "slot (add_sub u junk Add A B) i = add_sub_slot u Add A B i"
    using add_sub_result[of u junk Add A B] i(1) b assms(2) by simp
  moreover have "slot (add_sub_rvalue u junk Add A B) i = add_sub_slot u Add A B i"
    using k b i(1) assms
    by (simp add: r slot_below in_place_parts_def wf_entity_def add_sub_slot_def lane_op_def)
  ultimately show "slot (add_sub_rvalue u junk Add A B) i = slot (add_sub u junk Add A B) i"
    by simp
qed

end
